theory Spec2Isabelle
  imports Main "HOL-Library.Word"
begin

unbundle bit_operations_syntax

section \<open>Common types\<close>

type_synonym byte = "8 word"
type_synonym uint32 = "32 word"
type_synonym uint64 = "64 word"

text \<open>
  \<open>guid.GUID\<close> is a Go array \<open>[16]byte\<close>: a byte sequence of length exactly 16,
  compared with \<open>==\<close> element by element and serialised as its 16 bytes.
\<close>

typedef guid = "{bs :: byte list. length bs = 16}"
  by (rule exI [of _ "replicate 16 0"]) simp

text \<open>
  Every way the modelled functions can fail. \<open>External\<close> stands for an error value
  handed over by a collaborator (section decoder, stream); \<open>Panic\<close> is a Go run-time
  panic (slice bounds or index out of range).
\<close>

datatype error =
    EOF
  | ErrUnexpectedEOF
  | PadSizeTooSmall uint64
  | ErasePolarityInvalid byte
  | FileSizeTooBig guid uint64 nat
  | SectionParseError guid error
  | InvalidSectionLength guid
  | FindingLocation error
  | External string
  | Panic

section \<open>Package uefi: firmware files (pkg/uefi/file.go)\<close>

subsection \<open>Constants and file types\<close>

type_synonym FVFileType = byte

definition FVFileTypeRaw :: FVFileType where "FVFileTypeRaw = 1"
definition FVFileTypeFreeForm :: FVFileType where "FVFileTypeFreeForm = 2"
definition FVFileTypeSECCore :: FVFileType where "FVFileTypeSECCore = 3"
definition FVFileTypePEICore :: FVFileType where "FVFileTypePEICore = 4"
definition FVFileTypeDXECore :: FVFileType where "FVFileTypeDXECore = 5"
definition FVFileTypePEIM :: FVFileType where "FVFileTypePEIM = 6"
definition FVFileTypeDriver :: FVFileType where "FVFileTypeDriver = 7"
definition FVFileTypeCombinedPEIMDriver :: FVFileType where "FVFileTypeCombinedPEIMDriver = 8"
definition FVFileTypeApplication :: FVFileType where "FVFileTypeApplication = 9"
definition FVFileTypeSMM :: FVFileType where "FVFileTypeSMM = 10"
definition FVFileTypeVolumeImage :: FVFileType where "FVFileTypeVolumeImage = 11"
definition FVFileTypeCombinedSMMDXE :: FVFileType where "FVFileTypeCombinedSMMDXE = 12"
definition FVFileTypeSMMCore :: FVFileType where "FVFileTypeSMMCore = 13"
definition FVFileTypeSMMStandalone :: FVFileType where "FVFileTypeSMMStandalone = 14"
definition FVFileTypeSMMCoreStandalone :: FVFileType where "FVFileTypeSMMCoreStandalone = 15"
definition FVFileTypeOEMMin :: FVFileType where "FVFileTypeOEMMin = 0xC0"
definition FVFileTypeOEMMax :: FVFileType where "FVFileTypeOEMMax = 0xDF"
definition FVFileTypeDebugMin :: FVFileType where "FVFileTypeDebugMin = 0xE0"
definition FVFileTypeDebugMax :: FVFileType where "FVFileTypeDebugMax = 0xEF"
definition FVFileTypePad :: FVFileType where "FVFileTypePad = 0xF0"
definition FVFileTypeFFSMin :: FVFileType where "FVFileTypeFFSMin = 0xF0"
definition FVFileTypeFFSMax :: FVFileType where "FVFileTypeFFSMax = 0xFF"

text \<open>
  \<open>SupportedFiles\<close> is a Go map from file type to bool; a key that is absent reads as
  \<open>false\<close> (so \<open>PEIM\<close>, whose entry is commented out, and every unlisted code).
\<close>

definition SupportedFiles :: "FVFileType \<Rightarrow> bool" where
  "SupportedFiles t =
     (if t = FVFileTypeRaw then False
      else t \<in> {FVFileTypeFreeForm, FVFileTypeSECCore, FVFileTypePEICore, FVFileTypeDXECore,
                FVFileTypeDriver, FVFileTypeCombinedPEIMDriver, FVFileTypeApplication,
                FVFileTypeSMM, FVFileTypeVolumeImage, FVFileTypeCombinedSMMDXE,
                FVFileTypeSMMCore, FVFileTypeSMMStandalone, FVFileTypeSMMCoreStandalone})"

definition fileTypeNames :: "FVFileType \<Rightarrow> string option" where
  "fileTypeNames t =
     (if t = FVFileTypeRaw then Some ''EFI_FV_FILETYPE_RAW''
      else if t = FVFileTypeFreeForm then Some ''EFI_FV_FILETYPE_FREEFORM''
      else if t = FVFileTypeSECCore then Some ''EFI_FV_FILETYPE_SECURITY_CORE''
      else if t = FVFileTypePEICore then Some ''EFI_FV_FILETYPE_PEI_CORE''
      else if t = FVFileTypeDXECore then Some ''EFI_FV_FILETYPE_DXE_CORE''
      else if t = FVFileTypePEIM then Some ''EFI_FV_FILETYPE_PEIM''
      else if t = FVFileTypeDriver then Some ''EFI_FV_FILETYPE_DRIVER''
      else if t = FVFileTypeCombinedPEIMDriver then Some ''EFI_FV_FILETYPE_COMBINED_PEIM_DRIVER''
      else if t = FVFileTypeApplication then Some ''EFI_FV_FILETYPE_APPLICATION''
      else if t = FVFileTypeSMM then Some ''EFI_FV_FILETYPE_MM''
      else if t = FVFileTypeVolumeImage then Some ''EFI_FV_FILETYPE_FIRMWARE_VOLUME_IMAGE''
      else if t = FVFileTypeCombinedSMMDXE then Some ''EFI_FV_FILETYPE_COMBINED_MM_DXE''
      else if t = FVFileTypeSMMCore then Some ''EFI_FV_FILETYPE_MM_CORE''
      else if t = FVFileTypeSMMStandalone then Some ''EFI_FV_FILETYPE_MM_STANDALONE''
      else if t = FVFileTypeSMMCoreStandalone then Some ''EFI_FV_FILETYPE_MM_CORE_STANDALONE''
      else None)"

text \<open>\<open>fmt.Sprintf("%#x", uint8(f))\<close>: lower-case hexadecimal, prefix \<open>0x\<close>, no padding.\<close>

definition hexdigit :: "nat \<Rightarrow> char" where
  "hexdigit n = ''0123456789abcdef'' ! (n mod 16)"

definition sprintf_hex :: "byte \<Rightarrow> string" where
  "sprintf_hex b =
     ''0x'' @ (if unat b < 16 then [hexdigit (unat b)]
               else [hexdigit (unat b div 16), hexdigit (unat b mod 16)])"

definition FVFileType_String :: "FVFileType \<Rightarrow> string" where
  "FVFileType_String f =
     (if FVFileTypeOEMMin \<le> f \<and> f \<le> FVFileTypeOEMMax
        then ''EFI_FV_FILETYPE_OEM ('' @ sprintf_hex f @ '')''
      else if FVFileTypeDebugMin \<le> f \<and> f \<le> FVFileTypeDebugMax
        then ''EFI_FV_FILETYPE_DEBUG ('' @ sprintf_hex f @ '')''
      else if FVFileTypeFFSMin < f \<and> f \<le> FVFileTypeFFSMax
        then ''EFI_FV_FILETYPE_FFS ('' @ sprintf_hex f @ '')''
      else if f = FVFileTypePad then ''EFI_FV_FILETYPE_FFS_PAD''
      else (case fileTypeNames f of Some t \<Rightarrow> t | None \<Rightarrow> ''UNKNOWN''))"

definition ZeroGUID :: guid where
  "ZeroGUID = Abs_guid (replicate 16 0x00)"

definition FFGUID :: guid where
  "FFGUID = Abs_guid (replicate 16 0xFF)"

definition fileAlignments :: "uint64 list" where
  "fileAlignments =
     [1, 16, 128, 512, 1024, 4 * 1024, 32 * 1024, 64 * 1024, 128 * 1024, 256 * 1024,
      512 * 1024, 1024 * 1024, 2 * 1024 * 1024, 4 * 1024 * 1024, 8 * 1024 * 1024,
      16 * 1024 * 1024]"

definition FileHeaderMinLength :: nat where "FileHeaderMinLength = 0x18"
definition FileHeaderExtMinLength :: nat where "FileHeaderExtMinLength = 0x20"
definition EmptyBodyChecksum :: byte where "EmptyBodyChecksum = 0xAA"

type_synonym fileAttr = byte
type_synonym FileState = byte

definition FileStateHeaderConstruction :: FileState where "FileStateHeaderConstruction = 0x01"
definition FileStateHeaderValid :: FileState where "FileStateHeaderValid = 0x02"
definition FileStateDataValid :: FileState where "FileStateDataValid = 0x04"
definition FileStateMarkeForUpdate :: FileState where "FileStateMarkeForUpdate = 0x08"
definition FileStateDeleted :: FileState where "FileStateDeleted = 0x10"
definition FileStateHeaderInvalid :: FileState where "FileStateHeaderInvalid = 0x20"

definition FileStateValid :: FileState where
  "FileStateValid = FileStateHeaderConstruction OR FileStateHeaderValid OR FileStateDataValid"

subsection \<open>Data model\<close>

text \<open>\<open>ThreeUint8\<close> is \<open>[3]uint8\<close>: the triple of its elements 0, 1, 2.\<close>

type_synonym ThreeUint8 = "byte \<times> byte \<times> byte"

text \<open>
  \<open>IntegrityCheck\<close> has the fields \<open>Header\<close> and \<open>File\<close>; they are written
  \<open>Checksum_Header\<close> and \<open>Checksum_File\<close> here, after the path \<open>fh.Checksum.Header\<close>
  by which the code reaches them, since \<open>File.Header\<close> is a field of its own.
\<close>

record IntegrityCheck =
  Checksum_Header :: byte
  Checksum_File :: byte

record FileHeader =
  GUID :: guid
  Checksum :: IntegrityCheck
  Type :: FVFileType
  Attributes :: fileAttr
  Size :: ThreeUint8
  State :: FileState

record FileHeaderExtended = FileHeader +
  ExtendedSize :: uint64

text \<open>
  Sections and the NVAR store are decoded by collaborators outside these files. Of a
  section the parser reads only \<open>Header.ExtendedSize\<close> (converted with \<open>uint64(...)\<close>);
  the store is opaque.
\<close>

record Section =
  Section_ExtendedSize :: uint32

typedecl NVarStore

text \<open>
  \<open>File.Type\<close>, the display string, is the field \<open>TypeName\<close> (the header has a
  \<open>Type\<close> of its own). \<open>NVarStore\<close> is a pointer that may be nil.
\<close>

record File =
  Header :: FileHeaderExtended
  TypeName :: string
  Sections :: "Section list"
  NVarStore :: "NVarStore option"
  buf :: "byte list"
  ExtractPath :: string
  DataOffset :: nat

text \<open>
  The package-level settings and collaborators that \<open>file.go\<close> reads but does not
  declare: \<open>Attributes.ErasePolarity\<close>, \<open>ReadOnly\<close>, the \<open>NVAR\<close> GUID, \<open>NewSection\<close>
  and \<open>NewNVarStore\<close>. They are parameters of the model.
\<close>

record env =
  ErasePolarity :: byte
  ReadOnly :: bool
  NVAR :: guid
  NewSection :: "byte list \<Rightarrow> nat \<Rightarrow> error + Section"
  NewNVarStore :: "byte list \<Rightarrow> error + NVarStore"

subsection \<open>Primitive codec\<close>

text \<open>
  Modelled from the spec: \<open>Read3Size\<close>, \<open>Write3Size\<close>, \<open>Checksum8\<close> and \<open>Align4\<close> are
  called by \<open>file.go\<close> and defined elsewhere in the package.
  \<^item> \<open>Read3Size\<close> interprets three bytes little-endian as a 24-bit unsigned integer.
  \<^item> \<open>Write3Size\<close> writes the low 24 bits; inputs exceeding \<open>0xFFFFFF\<close> are saturated
    to \<open>0xFFFFFF\<close>.
  \<^item> \<open>Checksum8\<close> is the additive sum of bytes modulo 256; empty input yields 0.
  \<^item> \<open>Align4 x\<close> is the smallest multiple of 4 that is at least \<open>x\<close>.
\<close>

definition Read3Size :: "ThreeUint8 \<Rightarrow> uint64" where
  "Read3Size t =
     (case t of (b0, b1, b2) \<Rightarrow>
        push_bit 16 (ucast b2) OR push_bit 8 (ucast b1) OR ucast b0)"

definition Write3Size :: "uint64 \<Rightarrow> ThreeUint8" where
  "Write3Size s =
     (if s > 0xFFFFFF then (0xFF, 0xFF, 0xFF)
      else (ucast s, ucast (drop_bit 8 s), ucast (drop_bit 16 s)))"

definition Checksum8 :: "byte list \<Rightarrow> byte" where
  "Checksum8 bs = sum_list bs"

definition Align4 :: "nat \<Rightarrow> nat" where
  "Align4 x = ((x + 3) div 4) * 4"

text \<open>
  \<open>encoding/binary\<close> with \<open>binary.LittleEndian\<close> on the fixed-size structs: the fields
  in declaration order, a \<open>uint64\<close> as 8 bytes, least significant first. Writing
  into a \<open>bytes.Buffer\<close> cannot fail for these types. Reading takes the bytes with
  \<open>io.ReadFull\<close>: no byte available is \<open>io.EOF\<close>, too few are \<open>io.ErrUnexpectedEOF\<close>.
\<close>

definition put_uint64 :: "uint64 \<Rightarrow> byte list" where
  "put_uint64 w = map (\<lambda>i. ucast (drop_bit (8 * i) w)) [0..<8]"

fun get_uint64 :: "byte list \<Rightarrow> uint64" where
  "get_uint64 [] = 0"
| "get_uint64 (b # bs) = ucast b OR push_bit 8 (get_uint64 bs)"

definition ThreeUint8_bytes :: "ThreeUint8 \<Rightarrow> byte list" where
  "ThreeUint8_bytes t = (case t of (b0, b1, b2) \<Rightarrow> [b0, b1, b2])"

definition put_FileHeader :: "'a FileHeader_scheme \<Rightarrow> byte list" where
  "put_FileHeader fh =
     Rep_guid (GUID fh)
     @ [Checksum_Header (Checksum fh), Checksum_File (Checksum fh), Type fh, Attributes fh]
     @ ThreeUint8_bytes (Size fh)
     @ [State fh]"

definition put_FileHeaderExtended :: "FileHeaderExtended \<Rightarrow> byte list" where
  "put_FileHeaderExtended fh = put_FileHeader fh @ put_uint64 (ExtendedSize fh)"

definition readFull :: "nat \<Rightarrow> byte list \<Rightarrow> error + byte list" where
  "readFull n r =
     (if r = [] then Inl EOF
      else if length r < n then Inl ErrUnexpectedEOF
      else Inr (take n r))"

definition get_FileHeader :: "byte list \<Rightarrow> error + FileHeader" where
  "get_FileHeader r =
     (case readFull 24 r of
        Inl e \<Rightarrow> Inl e
      | Inr bs \<Rightarrow>
          Inr \<lparr> GUID = Abs_guid (take 16 bs),
                Checksum = \<lparr> Checksum_Header = bs ! 16, Checksum_File = bs ! 17 \<rparr>,
                Type = bs ! 18,
                Attributes = bs ! 19,
                Size = (bs ! 20, bs ! 21, bs ! 22),
                State = bs ! 23 \<rparr>)"

definition read_uint64 :: "byte list \<Rightarrow> error + uint64" where
  "read_uint64 r =
     (case readFull 8 r of
        Inl e \<Rightarrow> Inl e
      | Inr bs \<Rightarrow> Inr (get_uint64 bs))"

subsection \<open>Attributes and header length\<close>

definition IsLarge :: "fileAttr \<Rightarrow> bool" where
  "IsLarge a = (a AND 0x01 \<noteq> 0)"

text \<open>
  \<open>GetAlignment\<close> indexes the slice \<open>fileAlignments\<close>; Go panics when the index is out
  of range, which is the \<open>Inl Panic\<close> branch.
\<close>

definition alignVal :: "fileAttr \<Rightarrow> fileAttr" where
  "alignVal a = drop_bit 3 (a AND 0x38) OR push_bit 2 (a AND 0x02)"

definition GetAlignment :: "fileAttr \<Rightarrow> error + uint64" where
  "GetAlignment a =
     (if unat (alignVal a) < length fileAlignments
      then Inr (fileAlignments ! unat (alignVal a))
      else Inl Panic)"

definition setLarge :: "fileAttr \<Rightarrow> bool \<Rightarrow> fileAttr" where
  "setLarge a large = (if large then a OR 0x01 else a AND 0xFE)"

definition HasChecksum :: "fileAttr \<Rightarrow> bool" where
  "HasChecksum a = (a AND 0x40 \<noteq> 0)"

definition SetState :: "env \<Rightarrow> 'a FileHeader_scheme \<Rightarrow> FileState \<Rightarrow> 'a FileHeader_scheme" where
  "SetState env fh s = fh\<lparr> State := s XOR ErasePolarity env \<rparr>"

definition HeaderLen :: "File \<Rightarrow> nat" where
  "HeaderLen f =
     (if IsLarge (Attributes (Header f)) then FileHeaderExtMinLength
      else FileHeaderMinLength)"

text \<open>
  \<open>ChecksumHeader\<close> slices \<open>f.buf[:headerSize]\<close>, which panics on a shorter buffer.
\<close>

definition ChecksumHeader :: "File \<Rightarrow> error + byte" where
  "ChecksumHeader f =
     (let fh = Header f;
          headerSize = (if IsLarge (Attributes fh) then FileHeaderExtMinLength
                        else FileHeaderMinLength)
      in if length (buf f) < headerSize then Inl Panic
         else Inr (Checksum8 (take headerSize (buf f))
                   - Checksum_File (Checksum fh) - State fh))"

subsection \<open>Assembly\<close>

definition SetSize :: "File \<Rightarrow> uint64 \<Rightarrow> bool \<Rightarrow> File" where
  "SetSize f fsize resizeFile =
     (let fh = Header f;
          fh = fh\<lparr> ExtendedSize := fsize \<rparr>;
          fh = fh\<lparr> Attributes := setLarge (Attributes fh) False \<rparr>;
          fh = (if ExtendedSize fh > 0xFFFFFF
                then (let fh = (if resizeFile
                                then fh\<lparr> ExtendedSize :=
                                        ExtendedSize fh
                                        + word_of_nat (FileHeaderExtMinLength - FileHeaderMinLength) \<rparr>
                                else fh)
                      in fh\<lparr> Attributes := setLarge (Attributes fh) True \<rparr>)
                else fh);
          fh = fh\<lparr> Size := Write3Size (ExtendedSize fh) \<rparr>
      in f\<lparr> Header := fh \<rparr>)"

text \<open>
  \<open>ChecksumAndAssemble\<close> mutates the file and returns an error value; the model returns
  the error or the file after the call. Both \<open>binary.Write\<close> calls write a fixed-size
  struct into a fresh \<open>bytes.Buffer\<close> and so return no error.
\<close>

definition ChecksumAndAssemble :: "File \<Rightarrow> byte list \<Rightarrow> error + File" where
  "ChecksumAndAssemble f fileData =
     (let f = f\<lparr> buf := put_FileHeaderExtended (Header f) \<rparr>
      in case ChecksumHeader f of
           Inl e \<Rightarrow> Inl e
         | Inr s \<Rightarrow>
             (let fh = Header f;
                  fh = fh\<lparr> Checksum := (Checksum fh)
                             \<lparr> Checksum_Header := Checksum_Header (Checksum fh) - s \<rparr> \<rparr>;
                  fh = fh\<lparr> Checksum := (Checksum fh)\<lparr> Checksum_File := EmptyBodyChecksum \<rparr> \<rparr>;
                  fh = (if HasChecksum (Attributes fh)
                        then fh\<lparr> Checksum := (Checksum fh)
                                   \<lparr> Checksum_File := 0 - Checksum8 fileData \<rparr> \<rparr>
                        else fh);
                  header = (if IsLarge (Attributes fh) then put_FileHeaderExtended fh
                            else put_FileHeader fh)
              in Inr (f\<lparr> Header := fh, buf := header @ fileData \<rparr>)))"

text \<open>\<open>File{}\<close>: every field at its zero value.\<close>

definition File_zero :: File where
  "File_zero =
     \<lparr> Header = \<lparr> GUID = Abs_guid (replicate 16 0),
                  Checksum = \<lparr> Checksum_Header = 0, Checksum_File = 0 \<rparr>,
                  Type = 0, Attributes = 0, Size = (0, 0, 0), State = 0,
                  ExtendedSize = 0 \<rparr>,
       TypeName = [], Sections = [], NVarStore = None, buf = [], ExtractPath = [],
       DataOffset = 0 \<rparr>"

text \<open>
  \<open>CreatePadFile\<close>. The GUID choice is written as in the source, with its
  \<open>|| true\<close>. The body is \<open>size - FileHeaderMinLength\<close> bytes (\<open>size -
  FileHeaderExtMinLength\<close> for a large file), each set to the erase polarity; the limits
  of memory allocation are not modelled.
\<close>

definition CreatePadFile :: "env \<Rightarrow> uint64 \<Rightarrow> error + File" where
  "CreatePadFile env fsize =
     (if fsize < word_of_nat FileHeaderMinLength then Inl (PadSizeTooSmall fsize)
      else
        case (if ErasePolarity env = 0xFF \<or> True then Inr FFGUID
              else if ErasePolarity env = 0 then Inr ZeroGUID
              else Inl (ErasePolarityInvalid (ErasePolarity env))) of
          Inl e \<Rightarrow> Inl e
        | Inr g \<Rightarrow>
            (let f = File_zero;
                 f = f\<lparr> Header := (Header f)\<lparr> GUID := g \<rparr> \<rparr>;
                 f = f\<lparr> Header := (Header f)\<lparr> Attributes := 0 \<rparr> \<rparr>;
                 f = SetSize f fsize False;
                 f = f\<lparr> Header := (Header f)\<lparr> Type := FVFileTypePad \<rparr> \<rparr>;
                 f = f\<lparr> TypeName := FVFileType_String (Type (Header f)) \<rparr>;
                 fileData = replicate (unat (fsize - word_of_nat FileHeaderMinLength))
                              (ErasePolarity env);
                 fileData = (if IsLarge (Attributes (Header f))
                             then replicate (unat (fsize - word_of_nat FileHeaderExtMinLength))
                                    (ErasePolarity env)
                             else fileData);
                 f = f\<lparr> Header := SetState env (Header f) FileStateValid \<rparr>
             in ChecksumAndAssemble f fileData))"

subsection \<open>Parsing\<close>

text \<open>
  The section walk of \<open>NewFile\<close>. \<open>offset\<close> and \<open>ExtendedSize\<close> are \<open>uint64\<close> in the
  source; inside the loop \<open>offset < ExtendedSize \<le> len(buf)\<close>, a Go slice length is
  below \<open>2^63\<close> and a section size is below \<open>2^32\<close>, so the sum and its alignment never
  wrap and are taken in \<open>nat\<close>.
\<close>

function NewFile_sections ::
  "(byte list \<Rightarrow> nat \<Rightarrow> error + Section) \<Rightarrow> guid \<Rightarrow> byte list \<Rightarrow> nat \<Rightarrow> nat \<Rightarrow> nat
     \<Rightarrow> Section list \<Rightarrow> error + Section list" where
  "NewFile_sections newSection g fbuf ext i offset secs =
     (if offset < ext then
        (case newSection (drop offset fbuf) i of
           Inl err \<Rightarrow> Inl (SectionParseError g err)
         | Inr s \<Rightarrow>
             if Section_ExtendedSize s = 0 then Inl (InvalidSectionLength g)
             else NewFile_sections newSection g fbuf ext (i + 1)
                    (Align4 (offset + unat (Section_ExtendedSize s))) (secs @ [s]))
      else Inr secs)"
  by pat_completeness auto
termination
proof (relation "measure (\<lambda>(newSection, g, fbuf, ext, i, offset, secs). ext - offset)")
  show "wf (measure (\<lambda>(newSection, g, fbuf, ext, i, offset, secs). ext - offset))"
    by simp
next
  fix newSection :: "byte list \<Rightarrow> nat \<Rightarrow> error + Section"
  fix g :: guid and fbuf :: "byte list" and ext i offset :: nat
  fix secs :: "Section list" and s :: Section
  assume lt: "offset < ext" and nz: "Section_ExtendedSize s \<noteq> 0"
  from nz have "0 < unat (Section_ExtendedSize s)"
    by (simp add: unat_gt_0)
  then have "offset < Align4 (offset + unat (Section_ExtendedSize s))"
    unfolding Align4_def by linarith
  with lt show "((newSection, g, fbuf, ext, i + 1,
                  Align4 (offset + unat (Section_ExtendedSize s)), secs @ [s]),
                 (newSection, g, fbuf, ext, i, offset, secs))
                \<in> measure (\<lambda>(newSection, g, fbuf, ext, i, offset, secs). ext - offset)"
    by simp
qed

text \<open>
  The two size fields: the result is \<open>None\<close> for the start of free space, else the
  extended size and the data offset.
\<close>

definition NewFile_size :: "byte list \<Rightarrow> FileHeader \<Rightarrow> error + (uint64 \<times> nat) option" where
  "NewFile_size b fh =
     (if Size fh = (0xFF, 0xFF, 0xFF) then
        (case read_uint64 (drop 24 b) of
           Inl err \<Rightarrow> Inl err
         | Inr ext \<Rightarrow>
             if ext = 0xFFFFFFFFFFFFFFFF then Inr None
             else Inr (Some (ext, FileHeaderExtMinLength)))
      else Inr (Some (Read3Size (Size fh), FileHeaderMinLength)))"

text \<open>
  The NVAR store of a raw file. \<open>f.buf[f.DataOffset:]\<close> panics when the file is
  shorter than its data offset; an error of \<open>NewNVarStore\<close> is logged and leaves the
  store nil.
\<close>

definition NewFile_nvar :: "env \<Rightarrow> FileHeader \<Rightarrow> byte list \<Rightarrow> nat \<Rightarrow> error + NVarStore option" where
  "NewFile_nvar env fh fbuf doff =
     (if Type fh = FVFileTypeRaw \<and> GUID fh = NVAR env then
        (if length fbuf < doff then Inl Panic
         else (case NewNVarStore env (drop doff fbuf) of
                 Inl err \<Rightarrow> Inr None
               | Inr ns \<Rightarrow> Inr (Some ns)))
      else Inr None)"

text \<open>
  \<open>NewFile\<close> returns \<open>(*File, error)\<close>: \<open>Inl e\<close> is \<open>(nil, e)\<close>, \<open>Inr None\<close> is
  \<open>(nil, nil)\<close>, the start of free space, and \<open>Inr (Some f)\<close> is \<open>(&f, nil)\<close>. In both
  modes of \<open>ReadOnly\<close> the buffer holds the bytes \<open>buf[:ExtendedSize]\<close>, shared or copied.
\<close>

definition NewFile :: "env \<Rightarrow> byte list \<Rightarrow> error + File option" where
  "NewFile env b =
     (case get_FileHeader b of
        Inl err \<Rightarrow> Inl err
      | Inr fh \<Rightarrow>
          (case NewFile_size b fh of
             Inl err \<Rightarrow> Inl err
           | Inr None \<Rightarrow> Inr None
           | Inr (Some (ext, doff)) \<Rightarrow>
               if unat ext > length b then Inl (FileSizeTooBig (GUID fh) ext (length b))
               else
                 (let fbuf = (if ReadOnly env then take (unat ext) b else take (unat ext) b)
                  in case NewFile_nvar env fh fbuf doff of
                       Inl err \<Rightarrow> Inl err
                     | Inr ns \<Rightarrow>
                         (let f = \<lparr> Header = FileHeader.extend fh
                                              \<lparr> ExtendedSize = ext \<rparr>,
                                    TypeName = FVFileType_String (Type fh),
                                    Sections = [], NVarStore = ns, buf = fbuf,
                                    ExtractPath = [], DataOffset = doff \<rparr>
                          in if \<not> SupportedFiles (Type fh) then Inr (Some f)
                             else (case NewFile_sections (NewSection env) (GUID fh) fbuf
                                          (unat ext) 0 doff [] of
                                     Inl err \<Rightarrow> Inl err
                                   | Inr secs \<Rightarrow> Inr (Some (f\<lparr> Sections := secs \<rparr>)))))))"

section \<open>Package cbfs: payload records (pkg/cbfs/payload.go)\<close>

subsection \<open>Data model and collaborators\<close>

text \<open>
  Modelled from the spec: \<open>PayloadHeader\<close>, \<open>PayloadRecord\<close> and the embedded
  \<open>File\<close> are declared outside \<open>payload.go\<close>. A \<open>PayloadHeader\<close> is a descriptor with
  the fields segment type code, compression code, file offset, load address, compressed
  size and memory size; a \<open>PayloadRecord\<close> wraps a \<open>File\<close> and adds the ordered
  sequence of segment descriptors \<open>Segs\<close> and the body byte slice \<open>FData\<close>. Of the
  wrapped file the code reads only \<open>Size\<close>, an unsigned value it converts with
  \<open>int64(p.Size)\<close>. The fields of \<open>PayloadHeader\<close> carry the prefix \<open>ph_\<close>, the
  wrapped file is \<open>cbfs_File\<close> with the field \<open>File_Size\<close>.
\<close>

record PayloadHeader =
  ph_Type :: uint32
  ph_Compression :: uint32
  ph_Offset :: uint32
  ph_LoadAddress :: uint64
  ph_Size :: uint32
  ph_MemSize :: uint32

record cbfs_File =
  File_Size :: uint32

record PayloadRecord =
  pr_File :: cbfs_File
  Segs :: "PayloadHeader list"
  FData :: "byte list"

datatype whence = SeekStart | SeekCurrent | SeekEnd

text \<open>
  What \<open>Read\<close> is given and does not declare, as parameters over the state \<open>'s\<close> of the
  stream \<open>in\<close>:
  \<^item> \<open>SegEntry\<close>, the segment type constant;
  \<^item> \<open>cbfs_Read\<close>, the package function \<open>Read(in, &h)\<close> that decodes one
    \<open>PayloadHeader\<close> from the stream;
  \<^item> \<open>in_Seek\<close>, the method \<open>in.Seek(offset, whence)\<close>, returning the new position
    (an \<open>int64\<close>) or an error;
  \<^item> \<open>in_Read\<close>, the method \<open>in.Read(p)\<close> for a buffer of the given length: the
    bytes it stored at the front of \<open>p\<close> and its error value.
\<close>

record 's cbfs_env =
  SegEntry :: uint32
  cbfs_Read :: "'s \<Rightarrow> (error + PayloadHeader) \<times> 's"
  in_Seek :: "'s \<Rightarrow> uint64 \<Rightarrow> whence \<Rightarrow> (error + uint64) \<times> 's"
  in_Read :: "'s \<Rightarrow> nat \<Rightarrow> (byte list \<times> error option) \<times> 's"

subsection \<open>Reading a payload record\<close>

definition NewPayloadRecord :: "cbfs_File \<Rightarrow> error + PayloadRecord" where
  "NewPayloadRecord f = Inr \<lparr> pr_File = f, Segs = [], FData = [] \<rparr>"

text \<open>
  The segment loop of \<open>Read\<close>. It ends on an error of \<open>cbfs_Read\<close> or on a header of
  type \<open>SegEntry\<close>; on a stream that yields neither it does not return, which is the
  value \<open>None\<close>. The result is the error (if any), the segment list and the stream.
\<close>

partial_function (option) Read_segs ::
  "'s cbfs_env \<Rightarrow> PayloadHeader list \<Rightarrow> 's \<Rightarrow> ((error option \<times> PayloadHeader list) \<times> 's) option"
where
  "Read_segs env segs s =
     (case cbfs_Read env s of
        (Inl err, s') \<Rightarrow> Some ((Some err, segs), s')
      | (Inr h, s') \<Rightarrow>
          (let segs' = segs @ [h]
           in if ph_Type h = SegEntry env then Some ((None, segs'), s')
              else Read_segs env segs' s'))"

text \<open>
  \<open>make([]byte, bodySize)\<close> followed by \<open>in.Read(p.FData)\<close>: the buffer of zero bytes with
  the bytes read stored at its front.
\<close>

definition stored :: "nat \<Rightarrow> byte list \<Rightarrow> byte list" where
  "stored n bs = take n bs @ replicate (n - length bs) 0"

text \<open>
  \<open>bodySize\<close> is an \<open>int64\<close>: a 64-bit word read as signed (\<open>sint\<close>), the subtraction
  wrapping as in Go.
\<close>

definition bodySize :: "PayloadRecord \<Rightarrow> uint64 \<Rightarrow> uint64" where
  "bodySize p offset = ucast (File_Size (pr_File p)) - offset"

text \<open>
  \<open>Read\<close> mutates the record and the stream and returns an error value; the model
  returns the error (\<open>None\<close> for nil), the record and the stream after the call, or
  \<open>None\<close> when the segment loop does not return.
\<close>

definition PayloadRecord_Read ::
  "'s cbfs_env \<Rightarrow> PayloadRecord \<Rightarrow> 's \<Rightarrow> ((error option \<times> PayloadRecord) \<times> 's) option" where
  "PayloadRecord_Read env p s =
     (case Read_segs env (Segs p) s of
        None \<Rightarrow> None
      | Some ((Some err, segs), s1) \<Rightarrow> Some ((Some err, p\<lparr> Segs := segs \<rparr>), s1)
      | Some ((None, segs), s1) \<Rightarrow>
          (let p = p\<lparr> Segs := segs \<rparr>
           in case in_Seek env s1 0 SeekCurrent of
                (Inl err, s2) \<Rightarrow> Some ((Some (FindingLocation err), p), s2)
              | (Inr offset, s2) \<Rightarrow>
                  if sint (bodySize p offset) < 0 then Some ((None, p), s2)
                  else if bodySize p offset = 0 then Some ((None, p), s2)
                  else
                    (let p = p\<lparr> FData := replicate (nat (sint (bodySize p offset))) 0 \<rparr>
                     in case in_Read env s2 (length (FData p)) of
                          ((bs, Some err), s3) \<Rightarrow>
                            Some ((Some err, p\<lparr> FData := stored (length (FData p)) bs \<rparr>), s3)
                        | ((bs, None), s3) \<Rightarrow>
                            Some ((None, p\<lparr> FData := stored (length (FData p)) bs \<rparr>), s3))))"

subsection \<open>A stream over a byte slice\<close>

text \<open>
  The stream used to run \<open>Read\<close> on concrete input: a \<open>bytes.Reader\<close>, that is a byte
  slice \<open>br_s\<close> and a read position \<open>br_i\<close>. \<open>Read\<close> copies what is left, at most the
  buffer's length, and reports \<open>io.EOF\<close> at the end of the slice; \<open>Seek\<close> computes the
  position from the start, the current position or the end and rejects a negative one.

  Modelled from the spec: the package function \<open>Read(in, &h)\<close> decodes a fixed-size
  \<open>PayloadHeader\<close>, all fields big-endian. The field widths are those of the SELF
  segment table (4, 4, 4, 8, 4, 4 bytes); the bytes are taken with \<open>io.ReadFull\<close>.
\<close>

record bytes_Reader =
  br_s :: "byte list"
  br_i :: nat

definition bytes_Reader_Read :: "bytes_Reader \<Rightarrow> nat \<Rightarrow> (byte list \<times> error option) \<times> bytes_Reader" where
  "bytes_Reader_Read r n =
     (if br_i r \<ge> length (br_s r) then (([], Some EOF), r)
      else (let bs = take n (drop (br_i r) (br_s r))
            in ((bs, None), r\<lparr> br_i := br_i r + length bs \<rparr>)))"

definition bytes_Reader_Seek ::
  "bytes_Reader \<Rightarrow> uint64 \<Rightarrow> whence \<Rightarrow> (error + uint64) \<times> bytes_Reader" where
  "bytes_Reader_Seek r offset wh =
     (let abs = (case wh of
                   SeekStart \<Rightarrow> sint offset
                 | SeekCurrent \<Rightarrow> int (br_i r) + sint offset
                 | SeekEnd \<Rightarrow> int (length (br_s r)) + sint offset)
      in if abs < 0 then (Inl (External ''bytes.Reader.Seek: negative position''), r)
         else (Inr (word_of_int abs), r\<lparr> br_i := nat abs \<rparr>))"

definition get_be :: "byte list \<Rightarrow> 'a::len word" where
  "get_be bs = foldl (\<lambda>acc b. push_bit 8 acc OR ucast b) 0 bs"

definition PayloadHeader_size :: nat where
  "PayloadHeader_size = 28"

definition get_PayloadHeader :: "byte list \<Rightarrow> PayloadHeader" where
  "get_PayloadHeader bs =
     \<lparr> ph_Type = get_be (take 4 bs),
       ph_Compression = get_be (take 4 (drop 4 bs)),
       ph_Offset = get_be (take 4 (drop 8 bs)),
       ph_LoadAddress = get_be (take 8 (drop 12 bs)),
       ph_Size = get_be (take 4 (drop 20 bs)),
       ph_MemSize = get_be (take 4 (drop 24 bs)) \<rparr>"

definition bytes_Reader_cbfs_Read :: "bytes_Reader \<Rightarrow> (error + PayloadHeader) \<times> bytes_Reader" where
  "bytes_Reader_cbfs_Read r =
     (let rest = drop (br_i r) (br_s r)
      in if rest = [] then (Inl EOF, r)
         else if length rest < PayloadHeader_size
           then (Inl ErrUnexpectedEOF, r\<lparr> br_i := length (br_s r) \<rparr>)
         else (Inr (get_PayloadHeader (take PayloadHeader_size rest)),
               r\<lparr> br_i := br_i r + PayloadHeader_size \<rparr>))"

definition bytes_env :: "uint32 \<Rightarrow> bytes_Reader cbfs_env" where
  "bytes_env segEntry =
     \<lparr> SegEntry = segEntry, cbfs_Read = bytes_Reader_cbfs_Read,
       in_Seek = bytes_Reader_Seek, in_Read = bytes_Reader_Read \<rparr>"

section \<open>Derived notions\<close>

text \<open>
  The sum of the header bytes other than the two checksums and the state, over the
  header length that the large bit selects.
\<close>

definition header_rest :: "'a FileHeader_scheme \<Rightarrow> byte" where
  "header_rest fh =
     Checksum8 (Rep_guid (GUID fh)) + Type fh + Attributes fh
     + Checksum8 (ThreeUint8_bytes (Size fh))"

definition header_sum :: "FileHeaderExtended \<Rightarrow> byte" where
  "header_sum fh =
     (if IsLarge (Attributes fh)
      then header_rest fh + Checksum8 (put_uint64 (ExtendedSize fh))
      else header_rest fh)"

text \<open>
  A well-formed file buffer: a buffer that is exactly one file, in the layout that the
  data model gives a file of its length. The large bit is set exactly when the length
  exceeds \<open>0xFFFFFF\<close> (a large file), and the header has 32 bytes then and 24
  otherwise; the 3-byte size is the length saturated at \<open>0xFFFFFF\<close>; a large file
  carries its length as the 8-byte extended size; the header bytes sum to zero without
  \<open>State\<close> (byte 23) and \<open>Checksum.File\<close> (byte 17); and \<open>Checksum.File\<close> is
  \<open>0 - Checksum8(body)\<close> when the body checksum bit is set and \<open>0xAA\<close> otherwise.
  These are the files that \<open>SetSize\<close> and \<open>ChecksumAndAssemble\<close> write.
\<close>

definition well_formed :: "byte list \<Rightarrow> bool" where
  "well_formed b \<longleftrightarrow>
     24 \<le> length b \<and> length b < 2 ^ 64
     \<and> (let attrs = b ! 19;
            total = (word_of_nat (length b) :: uint64);
            headerLen = (if IsLarge attrs then FileHeaderExtMinLength
                         else FileHeaderMinLength)
        in headerLen \<le> length b
           \<and> IsLarge attrs = (total > 0xFFFFFF)
           \<and> (b ! 20, b ! 21, b ! 22) = Write3Size total
           \<and> (if IsLarge attrs then get_uint64 (take 8 (drop 24 b)) else total) = total
           \<and> Checksum8 (take headerLen b) - b ! 17 - b ! 23 = 0
           \<and> (if HasChecksum attrs then 0 - Checksum8 (drop headerLen b)
               else EmptyBodyChecksum) = b ! 17)"

section \<open>Concrete inputs\<close>

text \<open>
  Values on which the functions are run below. The settings have erase polarity
  \<open>0xFF\<close>; the section decoder reads the 3-byte little-endian size that starts a
  section header and nothing else, the store decoder rejects every input. The file is a
  driver of 28 bytes whose body checksum bit (\<open>0x40\<close>) is set; its body is one section
  of four bytes. \<open>example_assembled\<close> is that file after \<open>ChecksumAndAssemble\<close>.
\<close>

definition example_NewSection :: "byte list \<Rightarrow> nat \<Rightarrow> error + Section" where
  "example_NewSection b i =
     (if length b < 4 then Inl (External ''section header too short'')
      else Inr \<lparr> Section_ExtendedSize = ucast (Read3Size (b ! 0, b ! 1, b ! 2)) \<rparr>)"

definition example_env :: env where
  "example_env =
     \<lparr> ErasePolarity = 0xFF, ReadOnly = False, NVAR = ZeroGUID,
       NewSection = example_NewSection,
       NewNVarStore = (\<lambda>b. Inl (External ''no store decoder'')) \<rparr>"

definition example_file :: File where
  "example_file =
     \<lparr> Header = \<lparr> GUID = FFGUID,
                  Checksum = \<lparr> Checksum_Header = 0, Checksum_File = 0 \<rparr>,
                  Type = 0x07, Attributes = 0x40, Size = (0x1C, 0, 0), State = 0xF8,
                  ExtendedSize = 0x1C \<rparr>,
       TypeName = ''EFI_FV_FILETYPE_DRIVER'', Sections = [], NVarStore = None, buf = [],
       ExtractPath = [], DataOffset = 24 \<rparr>"

definition example_body :: "byte list" where
  "example_body = [0x04, 0x00, 0x00, 0x19]"

definition example_bytes :: "byte list" where
  "example_bytes =
     replicate 16 0xFF @ [0xAD, 0xE3, 0x07, 0x40, 0x1C, 0x00, 0x00, 0xF8]
     @ [0x04, 0x00, 0x00, 0x19]"

definition example_assembled :: File where
  "example_assembled =
     example_file
       \<lparr> Header := (Header example_file)
                      \<lparr> Checksum := \<lparr> Checksum_Header = 0xAD, Checksum_File = 0xE3 \<rparr> \<rparr>,
         buf := example_bytes \<rparr>"

text \<open>
  The example file as \<open>NewFile\<close> parses it from \<open>example_bytes\<close>.
\<close>

definition example_parsed :: File where
  "example_parsed = example_assembled \<lparr> Sections := [\<lparr> Section_ExtendedSize = 4 \<rparr>] \<rparr>"

text \<open>
  Two pad files as \<open>CreatePadFile\<close> assembles them. The first has \<open>0x1000008\<close> bytes:
  a large file, with the extended header and 16777192 body bytes, here under erase
  polarity \<open>0xFF\<close>. The second has exactly \<open>0xFFFFFF\<close> bytes, the largest size of a
  file that is not large: the standard header with the 3-byte size \<open>{0xFF,0xFF,0xFF}\<close>
  and 16777191 body bytes, for the erase polarity \<open>pol\<close>. With them the settings with
  erase polarity \<open>0x00\<close>, and the two files as \<open>NewFile\<close> parses the first and, under
  polarity \<open>0x00\<close>, the second.
\<close>

definition large_pad_bytes :: "byte list" where
  "large_pad_bytes =
     replicate 16 0xFF @ [0x19, 0xAA, 0xF0, 0x01, 0xFF, 0xFF, 0xFF, 0xF8]
     @ [0x08, 0x00, 0x00, 0x01, 0x00, 0x00, 0x00, 0x00]
     @ replicate 16777192 0xFF"

definition large_pad_parsed :: File where
  "large_pad_parsed =
     \<lparr> Header = \<lparr> GUID = FFGUID,
                  Checksum = \<lparr> Checksum_Header = 0x19, Checksum_File = 0xAA \<rparr>,
                  Type = 0xF0, Attributes = 0x01, Size = (0xFF, 0xFF, 0xFF), State = 0xF8,
                  ExtendedSize = 0x1000008 \<rparr>,
       TypeName = ''EFI_FV_FILETYPE_FFS_PAD'', Sections = [], NVarStore = None,
       buf = large_pad_bytes, ExtractPath = [], DataOffset = 32 \<rparr>"

definition boundary_pad_bytes :: "byte \<Rightarrow> byte list" where
  "boundary_pad_bytes pol =
     replicate 16 0xFF @ [0x23, 0xAA, 0xF0, 0x00, 0xFF, 0xFF, 0xFF, 0x07 XOR pol]
     @ replicate 16777191 pol"

definition example_env_zero :: env where
  "example_env_zero = example_env \<lparr> ErasePolarity := 0x00 \<rparr>"

definition boundary_pad_parsed_zero :: File where
  "boundary_pad_parsed_zero =
     \<lparr> Header = \<lparr> GUID = FFGUID,
                  Checksum = \<lparr> Checksum_Header = 0x23, Checksum_File = 0xAA \<rparr>,
                  Type = 0xF0, Attributes = 0x00, Size = (0xFF, 0xFF, 0xFF), State = 0x07,
                  ExtendedSize = 0 \<rparr>,
       TypeName = ''EFI_FV_FILETYPE_FFS_PAD'', Sections = [], NVarStore = None,
       buf = [], ExtractPath = [], DataOffset = 32 \<rparr>"

text \<open>
  A window of 32 bytes of erased flash: every byte is \<open>0xFF\<close>.
\<close>

definition free_space_window :: "byte list" where
  "free_space_window =
     [0xFF, 0xFF, 0xFF, 0xFF, 0xFF, 0xFF, 0xFF, 0xFF, 0xFF, 0xFF, 0xFF, 0xFF, 0xFF, 0xFF, 0xFF, 0xFF,
      0xFF, 0xFF, 0xFF, 0xFF, 0xFF, 0xFF, 0xFF, 0xFF, 0xFF, 0xFF, 0xFF, 0xFF, 0xFF, 0xFF, 0xFF, 0xFF]"

text \<open>
  A payload stream: the descriptor of a code segment, the descriptor of the entry
  point and two body bytes, 58 bytes in all, with the two descriptors as they decode.
  \<open>example_SegEntry\<close> is the type code that the second descriptor carries.
  \<open>example_record n\<close> is the record \<open>NewPayloadRecord\<close> makes for a file of size \<open>n\<close>.
\<close>

definition example_SegEntry :: uint32 where
  "example_SegEntry = 0x52544E45"

definition code_header_bytes :: "byte list" where
  "code_header_bytes =
     [0x45, 0x44, 0x4F, 0x43,  0x00, 0x00, 0x00, 0x00,  0x00, 0x00, 0x00, 0x38,
      0x00, 0x00, 0x00, 0x00, 0x00, 0x10, 0x00, 0x00,
      0x00, 0x00, 0x00, 0x02,  0x00, 0x00, 0x00, 0x02]"

definition entry_header_bytes :: "byte list" where
  "entry_header_bytes =
     [0x52, 0x54, 0x4E, 0x45,  0x00, 0x00, 0x00, 0x00,  0x00, 0x00, 0x00, 0x00,
      0x00, 0x00, 0x00, 0x00, 0x00, 0x10, 0x00, 0x00,
      0x00, 0x00, 0x00, 0x00,  0x00, 0x00, 0x00, 0x00]"

definition code_header :: PayloadHeader where
  "code_header =
     \<lparr> ph_Type = 0x45444F43, ph_Compression = 0, ph_Offset = 0x38,
       ph_LoadAddress = 0x100000, ph_Size = 2, ph_MemSize = 2 \<rparr>"

definition entry_header :: PayloadHeader where
  "entry_header =
     \<lparr> ph_Type = 0x52544E45, ph_Compression = 0, ph_Offset = 0,
       ph_LoadAddress = 0x100000, ph_Size = 0, ph_MemSize = 0 \<rparr>"

definition example_stream :: bytes_Reader where
  "example_stream =
     \<lparr> br_s = code_header_bytes @ entry_header_bytes @ [0xAB, 0xCD], br_i = 0 \<rparr>"

definition example_cbfs_env :: "bytes_Reader cbfs_env" where
  "example_cbfs_env = bytes_env example_SegEntry"

definition example_record :: "uint32 \<Rightarrow> PayloadRecord" where
  "example_record n = \<lparr> pr_File = \<lparr> File_Size = n \<rparr>, Segs = [], FData = [] \<rparr>"

section \<open>Properties of the primitive codec and the header layout\<close>

lemmas FVFileType_defs =
  FVFileTypeRaw_def FVFileTypeFreeForm_def FVFileTypeSECCore_def FVFileTypePEICore_def
  FVFileTypeDXECore_def FVFileTypePEIM_def FVFileTypeDriver_def
  FVFileTypeCombinedPEIMDriver_def FVFileTypeApplication_def FVFileTypeSMM_def
  FVFileTypeVolumeImage_def FVFileTypeCombinedSMMDXE_def FVFileTypeSMMCore_def
  FVFileTypeSMMStandalone_def FVFileTypeSMMCoreStandalone_def FVFileTypeOEMMin_def
  FVFileTypeOEMMax_def FVFileTypeDebugMin_def FVFileTypeDebugMax_def FVFileTypePad_def
  FVFileTypeFFSMin_def FVFileTypeFFSMax_def

lemmas header_length_defs = FileHeaderMinLength_def FileHeaderExtMinLength_def

lemma length_Rep_guid [simp]: "length (Rep_guid g) = 16"
  using Rep_guid [of g] by simp

lemma Rep_Abs_guid: "length bs = 16 \<Longrightarrow> Rep_guid (Abs_guid bs) = bs"
  by (simp add: Abs_guid_inverse)

lemma length_put_uint64 [simp]: "length (put_uint64 w) = 8"
  by (simp add: put_uint64_def)

lemma length_put_FileHeader [simp]: "length (put_FileHeader fh) = 24"
  by (simp add: put_FileHeader_def ThreeUint8_bytes_def split: prod.split)

lemma length_put_FileHeaderExtended [simp]: "length (put_FileHeaderExtended fh) = 32"
  by (simp add: put_FileHeaderExtended_def)

lemma Checksum8_Nil [simp]: "Checksum8 [] = 0"
  by (simp add: Checksum8_def)

lemma Checksum8_append: "Checksum8 (xs @ ys) = Checksum8 xs + Checksum8 ys"
  by (simp add: Checksum8_def)

text \<open>A value that fits the 3-byte field has no bit set from position 24 on.\<close>

lemma small_size_bit:
  fixes s :: uint64
  assumes "s \<le> 0xFFFFFF" and "bit s n"
  shows "n < 24"
proof -
  have "s < 2 ^ 24"
    using assms(1) by (simp add: word_le_nat_alt word_less_nat_alt)
  then have "s AND mask 24 = s"
    by (rule less_mask_eq)
  with assms(2) have "bit (s AND mask 24) n"
    by simp
  then show ?thesis
    by (simp add: bit_and_iff bit_mask_iff)
qed

lemma Read3Size_Write3Size: "Read3Size (Write3Size s) = min s 0xFFFFFF"
proof (cases "s > 0xFFFFFF")
  case True
  then have "min s 0xFFFFFF = 0xFFFFFF"
    by simp
  with True show ?thesis
    by (simp add: Read3Size_def Write3Size_def)
next
  case False
  then have le: "s \<le> 0xFFFFFF"
    by simp
  have "push_bit 16 (ucast (ucast (drop_bit 16 s) :: byte)) OR
        push_bit 8 (ucast (ucast (drop_bit 8 s) :: byte)) OR ucast (ucast s :: byte) = s"
  proof (rule bit_word_eqI)
    fix n
    assume "n < LENGTH(64)"
    show "bit (push_bit 16 (ucast (ucast (drop_bit 16 s) :: byte)) OR
               push_bit 8 (ucast (ucast (drop_bit 8 s) :: byte)) OR
               ucast (ucast s :: byte) :: uint64) n = bit s n"
    proof (cases "16 \<le> n")
      case True
      then have "16 + (n - 16) = n"
        by simp
      with True show ?thesis
        using small_size_bit [OF le, of n] by (auto simp: bit_simps)
    next
      case False
      then show ?thesis
        by (auto simp: bit_simps)
    qed
  qed
  with False le show ?thesis
    by (simp add: Read3Size_def Write3Size_def min_def)
qed

lemma IsLarge_bit: "IsLarge a = bit a 0"
  unfolding IsLarge_def by (simp add: and_one_eq bit_0 mod2_eq_if)

lemma byte_254: "(254 :: byte) = NOT 1"
  by simp

lemma setLarge_twice: "setLarge (setLarge a False) True = setLarge a True"
  unfolding setLarge_def by (rule bit_word_eqI) (auto simp: bit_simps byte_254)

lemma IsLarge_setLarge: "IsLarge (setLarge a b) = b"
  unfolding IsLarge_bit setLarge_def by (simp add: bit_simps byte_254)

lemma setLarge_other_bits: "0 < n \<Longrightarrow> bit (setLarge a b) n = bit a n"
  unfolding setLarge_def by (auto simp: bit_simps byte_254 dest: bit_imp_le_length)

text \<open>The index of \<open>GetAlignment\<close>, bit by bit.\<close>

lemma alignVal_bit:
  "bit (alignVal a) n \<longleftrightarrow> (n < 3 \<and> bit a (n + 3)) \<or> (n = 3 \<and> bit a 1)"
proof (cases "n < 8")
  case True
  then have "n \<in> {0, 1, 2, 3, 4, 5, 6, 7}"
    by auto
  then show ?thesis
    by (auto simp: alignVal_def bit_simps bit_numeral_simps)
next
  case False
  then show ?thesis
    by (auto simp: alignVal_def bit_simps dest: bit_imp_le_length)
qed

lemma alignVal_le: "unat (alignVal a) \<le> 15"
proof -
  have m: "(15 :: byte) = mask 4"
    by (simp add: mask_eq_exp_minus_1)
  have "alignVal a AND 15 = alignVal a"
    unfolding m by (rule bit_word_eqI) (auto simp: alignVal_bit bit_simps)
  then have "alignVal a \<le> 15"
    by (metis word_and_le1)
  then show ?thesis
    by (simp add: word_le_nat_alt)
qed

section \<open>Properties of assembly\<close>

lemma Checksum8_put_FileHeader:
  "Checksum8 (put_FileHeader fh) =
     header_rest fh + Checksum_Header (Checksum fh) + Checksum_File (Checksum fh) + State fh"
  by (simp add: put_FileHeader_def header_rest_def Checksum8_def)

lemma ChecksumAndAssemble_total: "\<exists>f'. ChecksumAndAssemble f d = Inr f'"
  by (simp add: ChecksumAndAssemble_def ChecksumHeader_def Let_def header_length_defs)

lemma ChecksumAndAssemble_Inr:
  assumes "ChecksumAndAssemble f d = Inr f'"
  shows "GUID (Header f') = GUID (Header f)"
    and "Type (Header f') = Type (Header f)"
    and "Attributes (Header f') = Attributes (Header f)"
    and "Size (Header f') = Size (Header f)"
    and "State (Header f') = State (Header f)"
    and "ExtendedSize (Header f') = ExtendedSize (Header f)"
    and "Checksum_File (Checksum (Header f')) =
           (if HasChecksum (Attributes (Header f)) then 0 - Checksum8 d
            else EmptyBodyChecksum)"
    and "Checksum_Header (Checksum (Header f')) = - header_sum (Header f)"
    and "buf f' = (if IsLarge (Attributes (Header f)) then put_FileHeaderExtended (Header f')
                   else put_FileHeader (Header f')) @ d"
  using assms
  by (auto simp add: ChecksumAndAssemble_def ChecksumHeader_def Let_def header_sum_def
        header_length_defs put_FileHeaderExtended_def Checksum8_append
        Checksum8_put_FileHeader header_rest_def split: if_splits)

text \<open>The run of \<open>ChecksumAndAssemble\<close> on the example file.\<close>

lemma ChecksumAndAssemble_example:
  "ChecksumAndAssemble example_file example_body = Inr example_assembled"
  by (simp add: ChecksumAndAssemble_def ChecksumHeader_def Let_def example_file_def
        example_body_def example_assembled_def example_bytes_def header_length_defs
        IsLarge_def HasChecksum_def put_FileHeaderExtended_def put_FileHeader_def FFGUID_def
        Rep_Abs_guid ThreeUint8_bytes_def Checksum8_def put_uint64_def
        EmptyBodyChecksum_def sum_list_replicate)

lemma example_assembled_facts:
  "HeaderLen example_assembled = 24"
  "buf example_assembled = example_bytes"
  "Attributes (Header example_assembled) = 0x40"
  "State (Header example_assembled) = 0xF8"
  "Checksum_File (Checksum (Header example_assembled)) = 0xE3"
  by (simp_all add: example_assembled_def example_file_def HeaderLen_def IsLarge_def
        header_length_defs)

text \<open>
  Claim C2. For every file on which \<open>ChecksumAndAssemble\<close> succeeds, the 8-bit sum of
  the first \<open>HeaderLen\<close> bytes of the resulting buffer, minus the \<open>Checksum.File\<close> byte
  and minus the \<open>State\<close> byte, is 0 modulo 256 (the arithmetic of \<open>byte\<close> is modulo
  256).
\<close>

theorem ChecksumAndAssemble_header_sum:
  assumes "ChecksumAndAssemble f d = Inr f'"
  shows "Checksum8 (take (HeaderLen f') (buf f'))
           - Checksum_File (Checksum (Header f')) - State (Header f') = 0"
proof -
  note h = ChecksumAndAssemble_Inr [OF assms]
  show ?thesis
  proof (cases "IsLarge (Attributes (Header f))")
    case True
    with h show ?thesis
      by (simp add: HeaderLen_def header_length_defs put_FileHeaderExtended_def
            Checksum8_append Checksum8_put_FileHeader header_rest_def header_sum_def)
  next
    case False
    with h show ?thesis
      by (simp add: HeaderLen_def header_length_defs Checksum8_append
            Checksum8_put_FileHeader header_rest_def header_sum_def)
  qed
qed

text \<open>
  The theorem at the example file: the call succeeds, and the 24 header bytes of the
  result sum to \<open>0xE3 + 0xF8\<close>, the file checksum plus the state.
\<close>

theorem ChecksumAndAssemble_header_sum_witness:
  "ChecksumAndAssemble example_file example_body = Inr example_assembled
   \<and> Checksum8 (take 24 example_bytes) - 0xE3 - 0xF8 = 0"
  using ChecksumAndAssemble_header_sum [OF ChecksumAndAssemble_example]
  by (simp add: ChecksumAndAssemble_example example_assembled_facts)

text \<open>
  Claim C3, as the code has it. For every file on which \<open>ChecksumAndAssemble(body)\<close>
  succeeds, the bytes of the buffer after the header are the body; if the \<open>HasChecksum\<close>
  bit is set, the \<open>Checksum.File\<close> byte plus the 8-bit sum over the body bytes is 0
  modulo 256; if the bit is unset, \<open>Checksum.File\<close> equals \<open>0xAA\<close>.
\<close>

theorem ChecksumAndAssemble_body_sum:
  assumes "ChecksumAndAssemble f d = Inr f'"
  shows "drop (HeaderLen f') (buf f') = d
         \<and> (if HasChecksum (Attributes (Header f'))
            then Checksum_File (Checksum (Header f')) + Checksum8 d = 0
            else Checksum_File (Checksum (Header f')) = 0xAA)"
proof -
  note h = ChecksumAndAssemble_Inr [OF assms]
  from h(3,9) have "drop (HeaderLen f') (buf f') = d"
    by (simp add: HeaderLen_def header_length_defs)
  with h(3,7) show ?thesis
    by (simp add: EmptyBodyChecksum_def)
qed

theorem ChecksumAndAssemble_body_sum_witness:
  "ChecksumAndAssemble example_file example_body = Inr example_assembled
   \<and> drop 24 example_bytes = example_body
   \<and> (0xE3 :: byte) + Checksum8 example_body = 0"
  using ChecksumAndAssemble_body_sum [OF ChecksumAndAssemble_example]
  by (simp add: ChecksumAndAssemble_example example_assembled_facts HasChecksum_def)

text \<open>
  Claim C3 as stated fails: the example file has the \<open>HasChecksum\<close> bit set and is
  assembled without error, and the sum over its body bytes is \<open>0x1D\<close>, not 0. It is the
  body together with the \<open>Checksum.File\<close> byte that sums to 0.
\<close>

theorem ChecksumAndAssemble_body_sum_counterexample:
  "ChecksumAndAssemble example_file example_body = Inr example_assembled
   \<and> HasChecksum (Attributes (Header example_assembled))
   \<and> drop (HeaderLen example_assembled) (buf example_assembled) = example_body
   \<and> Checksum8 example_body \<noteq> 0"
proof -
  have "HasChecksum (Attributes (Header example_assembled))"
    by (simp add: example_assembled_facts HasChecksum_def)
  moreover have "drop (HeaderLen example_assembled) (buf example_assembled) = example_body"
    by (simp add: example_assembled_facts example_bytes_def example_body_def)
  moreover have "Checksum8 example_body \<noteq> 0"
    by (simp add: example_body_def Checksum8_def)
  ultimately show ?thesis
    using ChecksumAndAssemble_example by simp
qed

text \<open>
  Claim C4. For every size and resize flag, \<open>SetSize(size, resize)\<close> assigns
  \<open>ExtendedSize = size\<close> and clears the large bit; then, if \<open>size > 0xFFFFFF\<close>, it sets
  the large bit and, when \<open>resize\<close> is true, grows \<open>ExtendedSize\<close> by 8 (in \<open>uint64\<close>
  arithmetic); finally the 3-byte \<open>Size\<close> is \<open>Write3Size(ExtendedSize)\<close>, which reads
  back as \<open>min(ExtendedSize, 0xFFFFFF)\<close>. The other attribute bits and the other header
  fields keep their values. In particular \<open>SetSize(0x1000000, true)\<close> yields
  \<open>ExtendedSize = 0x1000008\<close>, \<open>Size = {0xFF,0xFF,0xFF}\<close>, the large bit set and
  \<open>HeaderLen = 32\<close>.
\<close>

theorem SetSize_spec:
  "ExtendedSize (Header (SetSize f fsize resize)) =
     (if fsize > 0xFFFFFF \<and> resize then fsize + 8 else fsize)
   \<and> IsLarge (Attributes (Header (SetSize f fsize resize))) = (fsize > 0xFFFFFF)
   \<and> Attributes (Header (SetSize f fsize resize)) =
       setLarge (Attributes (Header f)) (fsize > 0xFFFFFF)
   \<and> Size (Header (SetSize f fsize resize)) =
       Write3Size (ExtendedSize (Header (SetSize f fsize resize)))
   \<and> Read3Size (Size (Header (SetSize f fsize resize))) =
       min (ExtendedSize (Header (SetSize f fsize resize))) 0xFFFFFF
   \<and> HeaderLen (SetSize f fsize resize) = (if fsize > 0xFFFFFF then 32 else 24)
   \<and> ExtendedSize (Header (SetSize f 0x1000000 True)) = 0x1000008
   \<and> Size (Header (SetSize f 0x1000000 True)) = (0xFF, 0xFF, 0xFF)
   \<and> IsLarge (Attributes (Header (SetSize f 0x1000000 True)))
   \<and> HeaderLen (SetSize f 0x1000000 True) = 32"
proof -
  have ext: "ExtendedSize (Header (SetSize f s r)) = (if s > 0xFFFFFF \<and> r then s + 8 else s)"
    for s r
    by (simp add: SetSize_def Let_def header_length_defs)
  have attr: "Attributes (Header (SetSize f s r)) = setLarge (Attributes (Header f)) (s > 0xFFFFFF)"
    for s r
    by (simp add: SetSize_def Let_def setLarge_twice)
  have sz: "Size (Header (SetSize f s r)) = Write3Size (ExtendedSize (Header (SetSize f s r)))"
    for s r
    by (simp add: SetSize_def Let_def)
  have large: "IsLarge (Attributes (Header (SetSize f s r))) = (s > 0xFFFFFF)" for s r
    by (simp add: attr IsLarge_setLarge)
  have hl: "HeaderLen (SetSize f s r) = (if s > 0xFFFFFF then 32 else 24)" for s r
    by (simp add: HeaderLen_def large header_length_defs)
  have rd: "Read3Size (Size (Header (SetSize f s r))) =
              min (ExtendedSize (Header (SetSize f s r))) 0xFFFFFF" for s r
    by (simp only: sz Read3Size_Write3Size)
  have c1: "ExtendedSize (Header (SetSize f 0x1000000 True)) = 0x1000008"
    by (simp add: ext)
  have c2: "Size (Header (SetSize f 0x1000000 True)) = (0xFF, 0xFF, 0xFF)"
    by (simp add: sz c1 Write3Size_def)
  have c3: "IsLarge (Attributes (Header (SetSize f 0x1000000 True)))"
    by (simp add: large)
  have c4: "HeaderLen (SetSize f 0x1000000 True) = 32"
    by (simp add: hl)
  show ?thesis
    using ext [of fsize resize] attr [of fsize resize] sz [of fsize resize]
      large [of fsize resize] hl [of fsize resize] rd [of fsize resize] c1 c2 c3 c4
    by blast
qed

text \<open>
  The theorem at the pad file of 24 bytes with the sizes \<open>0xFFFFFF\<close> (the largest that
  fits the 3-byte field: no large bit, no growth) and \<open>0x2000000\<close> without resize.
\<close>

theorem SetSize_spec_witness:
  "ExtendedSize (Header (SetSize example_file 0xFFFFFF True)) = 0xFFFFFF
   \<and> \<not> IsLarge (Attributes (Header (SetSize example_file 0xFFFFFF True)))
   \<and> Size (Header (SetSize example_file 0xFFFFFF True)) = (0xFF, 0xFF, 0xFF)
   \<and> HeaderLen (SetSize example_file 0xFFFFFF True) = 24
   \<and> ExtendedSize (Header (SetSize example_file 0x2000000 False)) = 0x2000000
   \<and> Attributes (Header (SetSize example_file 0x2000000 False)) = 0x41
   \<and> Read3Size (Size (Header (SetSize example_file 0x2000000 False))) = 0xFFFFFF"
proof -
  have a: "Attributes (Header example_file) = 0x40"
    by (simp add: example_file_def)
  show ?thesis
    using SetSize_spec [of example_file "0xFFFFFF" True]
      SetSize_spec [of example_file "0x2000000" False]
    by (auto simp add: Write3Size_def a setLarge_def)
qed

text \<open>
  Claim C10. For every 8-bit attribute value, the index \<open>GetAlignment\<close> computes has
  bits 3 to 5 of the attribute as its bits 0 to 2 and bit 1 of the attribute as its bit
  3, and no other bit; it is at most 15, the table \<open>fileAlignments\<close> has 16 entries, and
  \<open>GetAlignment\<close> returns the table entry at the index, without a panic.
\<close>

theorem GetAlignment_total:
  "(\<forall>n. bit (alignVal a) n = ((n < 3 \<and> bit a (n + 3)) \<or> (n = 3 \<and> bit a 1)))
   \<and> unat (alignVal a) \<le> 15
   \<and> length fileAlignments = 16
   \<and> GetAlignment a = Inr (fileAlignments ! unat (alignVal a))
   \<and> fileAlignments ! unat (alignVal a) \<in> set fileAlignments"
proof -
  have l: "length fileAlignments = 16"
    by (simp add: fileAlignments_def)
  with alignVal_le [of a] have lt: "unat (alignVal a) < length fileAlignments"
    by simp
  then have "GetAlignment a = Inr (fileAlignments ! unat (alignVal a))"
    by (simp add: GetAlignment_def)
  with l lt alignVal_le [of a] alignVal_bit [of a] show ?thesis
    by simp
qed

text \<open>
  The theorem at the attribute \<open>0x3A\<close> (bits 1, 3, 4 and 5): index 15, alignment 16 Mi.
\<close>

theorem GetAlignment_total_witness:
  "alignVal 0x3A = 15 \<and> GetAlignment 0x3A = Inr 0x1000000"
proof -
  have "alignVal 0x3A = 15"
    by (simp add: alignVal_def)
  with GetAlignment_total [of "0x3A"] show ?thesis
    by (simp add: fileAlignments_def)
qed

text \<open>The pad file of 24 bytes, for any erase polarity.\<close>

lemma CreatePadFile_24:
  "CreatePadFile env 24 =
     Inr \<lparr> Header = \<lparr> GUID = FFGUID,
                       Checksum = \<lparr> Checksum_Header = 0x08, Checksum_File = 0xAA \<rparr>,
                       Type = 0xF0, Attributes = 0, Size = (0x18, 0, 0),
                       State = 0x07 XOR ErasePolarity env, ExtendedSize = 24 \<rparr>,
            TypeName = ''EFI_FV_FILETYPE_FFS_PAD'', Sections = [], NVarStore = None,
            buf = replicate 16 0xFF
                  @ [0x08, 0xAA, 0xF0, 0, 0x18, 0, 0, 0x07 XOR ErasePolarity env],
            ExtractPath = [], DataOffset = 0 \<rparr>"
  by (simp add: CreatePadFile_def header_length_defs File_zero_def SetSize_def Let_def
        setLarge_def Write3Size_def IsLarge_def SetState_def FVFileType_String_def
        FVFileType_defs FileStateValid_def FileStateHeaderConstruction_def
        FileStateHeaderValid_def FileStateDataValid_def ChecksumAndAssemble_def
        ChecksumHeader_def HasChecksum_def put_FileHeaderExtended_def put_FileHeader_def
        FFGUID_def Rep_Abs_guid ThreeUint8_bytes_def Checksum8_def put_uint64_def
        EmptyBodyChecksum_def sum_list_replicate)

text \<open>
  Claim C5. \<open>CreatePadFile(size)\<close> fails for every size below 24. \<open>CreatePadFile(24)\<close>
  succeeds and, under erase polarity \<open>0xFF\<close>, yields a 24-byte buffer with no body
  bytes, whose GUID is all-ones, type is \<open>0xF0\<close>, attributes are \<open>0x00\<close>, \<open>Size\<close> is
  \<open>{0x18,0x00,0x00}\<close>, \<open>State XOR 0xFF\<close> is \<open>FileStateValid\<close>, whose header sums to
  zero without \<open>State\<close> and \<open>Checksum.File\<close>, and whose \<open>Checksum.File\<close> is \<open>0xAA\<close>.
\<close>

theorem CreatePadFile_minimal:
  "(fsize < 24 \<longrightarrow> CreatePadFile env fsize = Inl (PadSizeTooSmall fsize))
   \<and> (\<exists>f. CreatePadFile env 24 = Inr f
        \<and> (ErasePolarity env = 0xFF \<longrightarrow>
             buf f = replicate 16 0xFF @ [0x08, 0xAA, 0xF0, 0x00, 0x18, 0x00, 0x00, 0xF8]
           \<and> length (buf f) = 24
           \<and> drop (HeaderLen f) (buf f) = []
           \<and> Rep_guid (GUID (Header f)) = replicate 16 0xFF
           \<and> Type (Header f) = 0xF0
           \<and> Attributes (Header f) = 0x00
           \<and> Size (Header f) = (0x18, 0x00, 0x00)
           \<and> State (Header f) XOR 0xFF = FileStateValid
           \<and> Checksum8 (take (HeaderLen f) (buf f))
               - Checksum_File (Checksum (Header f)) - State (Header f) = 0
           \<and> Checksum_File (Checksum (Header f)) = 0xAA))"
proof -
  have small: "fsize < 24 \<longrightarrow> CreatePadFile env fsize = Inl (PadSizeTooSmall fsize)"
    by (simp add: CreatePadFile_def FileHeaderMinLength_def)
  obtain f where f: "CreatePadFile env 24 = Inr f"
    and fields: "Header f = \<lparr> GUID = FFGUID,
                   Checksum = \<lparr> Checksum_Header = 0x08, Checksum_File = 0xAA \<rparr>,
                   Type = 0xF0, Attributes = 0, Size = (0x18, 0, 0),
                   State = 0x07 XOR ErasePolarity env, ExtendedSize = 24 \<rparr>"
    and bytes: "buf f = replicate 16 0xFF
                  @ [0x08, 0xAA, 0xF0, 0, 0x18, 0, 0, 0x07 XOR ErasePolarity env]"
    using CreatePadFile_24 [of env] by simp
  have "ErasePolarity env = 0xFF \<longrightarrow>
             buf f = replicate 16 0xFF @ [0x08, 0xAA, 0xF0, 0x00, 0x18, 0x00, 0x00, 0xF8]
           \<and> length (buf f) = 24
           \<and> drop (HeaderLen f) (buf f) = []
           \<and> Rep_guid (GUID (Header f)) = replicate 16 0xFF
           \<and> Type (Header f) = 0xF0
           \<and> Attributes (Header f) = 0x00
           \<and> Size (Header f) = (0x18, 0x00, 0x00)
           \<and> State (Header f) XOR 0xFF = FileStateValid
           \<and> Checksum8 (take (HeaderLen f) (buf f))
               - Checksum_File (Checksum (Header f)) - State (Header f) = 0
           \<and> Checksum_File (Checksum (Header f)) = 0xAA"
    by (simp add: fields bytes HeaderLen_def IsLarge_def header_length_defs FFGUID_def
          Rep_Abs_guid FileStateValid_def FileStateHeaderConstruction_def
          FileStateHeaderValid_def FileStateDataValid_def Checksum8_def sum_list_replicate)
  with small f show ?thesis
    by blast
qed

text \<open>The theorem at the example settings (polarity \<open>0xFF\<close>) and the size 23.\<close>

theorem CreatePadFile_minimal_witness:
  "(23 :: uint64) < 24
   \<and> ErasePolarity example_env = 0xFF
   \<and> CreatePadFile example_env 23 = Inl (PadSizeTooSmall 23)
   \<and> (\<exists>f. CreatePadFile example_env 24 = Inr f
        \<and> buf f = replicate 16 0xFF @ [0x08, 0xAA, 0xF0, 0x00, 0x18, 0x00, 0x00, 0xF8])"
proof -
  have "ErasePolarity example_env = 0xFF"
    by (simp add: example_env_def)
  with CreatePadFile_minimal [of 23 example_env] show ?thesis
    by auto
qed

section \<open>Properties of parsing\<close>

lemma get_FileHeader_Inr:
  "get_FileHeader b = Inr fh \<longleftrightarrow>
     24 \<le> length b
     \<and> fh = \<lparr> GUID = Abs_guid (take 16 b),
              Checksum = \<lparr> Checksum_Header = b ! 16, Checksum_File = b ! 17 \<rparr>,
              Type = b ! 18, Attributes = b ! 19, Size = (b ! 20, b ! 21, b ! 22),
              State = b ! 23 \<rparr>"
  by (auto simp: get_FileHeader_def readFull_def)

lemma read_uint64_Inr:
  "read_uint64 r = Inr w \<longleftrightarrow> 8 \<le> length r \<and> w = get_uint64 (take 8 r)"
  by (auto simp: read_uint64_def readFull_def)

lemma NewFile_size_None:
  "NewFile_size b fh = Inr None \<longleftrightarrow>
     Size fh = (0xFF, 0xFF, 0xFF) \<and> read_uint64 (drop 24 b) = Inr 0xFFFFFFFFFFFFFFFF"
  by (auto simp: NewFile_size_def split: sum.splits)

lemma NewFile_size_Some:
  "NewFile_size b fh = Inr (Some (ext, doff)) \<longleftrightarrow>
     (if Size fh = (0xFF, 0xFF, 0xFF)
      then read_uint64 (drop 24 b) = Inr ext \<and> ext \<noteq> 0xFFFFFFFFFFFFFFFF \<and> doff = 32
      else ext = Read3Size (Size fh) \<and> doff = 24)"
  by (auto simp: NewFile_size_def header_length_defs split: sum.splits)

text \<open>
  \<open>NewFile\<close> returns \<open>(nil, nil)\<close> on one path only: the one through the free-space
  test. Every later return carries an error or the file.
\<close>

lemma NewFile_None:
  "NewFile env b = Inr None \<longleftrightarrow>
     (\<exists>fh. get_FileHeader b = Inr fh \<and> NewFile_size b fh = Inr None)"
proof
  assume "\<exists>fh. get_FileHeader b = Inr fh \<and> NewFile_size b fh = Inr None"
  then show "NewFile env b = Inr None"
    by (auto simp: NewFile_def)
next
  assume a: "NewFile env b = Inr None"
  show "\<exists>fh. get_FileHeader b = Inr fh \<and> NewFile_size b fh = Inr None"
  proof (cases "get_FileHeader b")
    case (Inl e)
    with a show ?thesis
      by (simp add: NewFile_def)
  next
    case (Inr fh)
    show ?thesis
    proof (cases "NewFile_size b fh")
      case (Inl e)
      with a Inr show ?thesis
        by (simp add: NewFile_def)
    next
      case r: (Inr x)
      show ?thesis
      proof (cases x)
        case None
        with r Inr show ?thesis
          by simp
      next
        case (Some p)
        obtain ext doff where "p = (ext, doff)"
          by (cases p)
        with a Inr r Some have False
          by (simp add: NewFile_def Let_def split: if_splits sum.splits)
        then show ?thesis ..
      qed
    qed
  qed
qed

lemma free_space_window_decodes:
  "length free_space_window = 32"
  "\<exists>fh. get_FileHeader free_space_window = Inr fh \<and> Size fh = (0xFF, 0xFF, 0xFF)"
  "read_uint64 (drop 24 free_space_window) = Inr 0xFFFFFFFFFFFFFFFF"
  by (simp_all add: free_space_window_def get_FileHeader_def read_uint64_def readFull_def)

text \<open>
  Claim C6. \<open>NewFile\<close> returns the free-space signal, no file and no error (\<open>Inr None\<close>),
  exactly when the standard header decodes with the 3-byte size \<open>{0xFF,0xFF,0xFF}\<close> and
  the 8-byte extended size read immediately after it is \<open>0xFFFFFFFFFFFFFFFF\<close>; in bytes:
  the window has at least 32 bytes, bytes 20 to 22 are \<open>0xFF\<close> and bytes 24 to 31 decode
  to that value. The signal is distinct from every error result and from every file.
\<close>

theorem NewFile_free_space:
  "(NewFile env b = Inr None \<longleftrightarrow>
      (\<exists>fh. get_FileHeader b = Inr fh \<and> Size fh = (0xFF, 0xFF, 0xFF)
            \<and> read_uint64 (drop 24 b) = Inr 0xFFFFFFFFFFFFFFFF))
   \<and> (NewFile env b = Inr None \<longleftrightarrow>
        32 \<le> length b \<and> b ! 20 = 0xFF \<and> b ! 21 = 0xFF \<and> b ! 22 = 0xFF
        \<and> get_uint64 (take 8 (drop 24 b)) = 0xFFFFFFFFFFFFFFFF)
   \<and> (NewFile env b = Inr None \<longrightarrow>
        (\<forall>e. NewFile env b \<noteq> Inl e) \<and> (\<forall>f. NewFile env b \<noteq> Inr (Some f)))"
proof -
  have 1: "NewFile env b = Inr None \<longleftrightarrow>
      (\<exists>fh. get_FileHeader b = Inr fh \<and> Size fh = (0xFF, 0xFF, 0xFF)
            \<and> read_uint64 (drop 24 b) = Inr 0xFFFFFFFFFFFFFFFF)"
    by (simp add: NewFile_None NewFile_size_None)
  have 2: "(\<exists>fh. get_FileHeader b = Inr fh \<and> Size fh = (0xFF, 0xFF, 0xFF)
            \<and> read_uint64 (drop 24 b) = Inr 0xFFFFFFFFFFFFFFFF) \<longleftrightarrow>
        32 \<le> length b \<and> b ! 20 = 0xFF \<and> b ! 21 = 0xFF \<and> b ! 22 = 0xFF
        \<and> get_uint64 (take 8 (drop 24 b)) = 0xFFFFFFFFFFFFFFFF"
    by (auto simp: get_FileHeader_Inr read_uint64_Inr)
  have 3: "NewFile env b = Inr None \<longrightarrow>
        (\<forall>e. NewFile env b \<noteq> Inl e) \<and> (\<forall>f. NewFile env b \<noteq> Inr (Some f))"
    by simp
  from 1 2 have "NewFile env b = Inr None \<longleftrightarrow>
        32 \<le> length b \<and> b ! 20 = 0xFF \<and> b ! 21 = 0xFF \<and> b ! 22 = 0xFF
        \<and> get_uint64 (take 8 (drop 24 b)) = 0xFFFFFFFFFFFFFFFF"
    by simp
  with 1 3 show ?thesis
    by (intro conjI)
qed

text \<open>The theorem at the window of 32 erased bytes: it is the start of free space.\<close>

theorem NewFile_free_space_witness:
  "NewFile example_env free_space_window = Inr None"
  using NewFile_free_space [of example_env free_space_window] free_space_window_decodes
  by simp

text \<open>
  Claim C7, as the code has it. For every input window whose header decodes, whose
  decoded \<open>ExtendedSize\<close> exceeds the window length and which is not the start of free
  space (3-byte size \<open>{0xFF,0xFF,0xFF}\<close> with extended size \<open>0xFFFFFFFFFFFFFFFF\<close>),
  \<open>NewFile\<close> returns no file and fails with the error that names the file's GUID, the
  first 16 bytes of the window. \<open>NewFile_size b fh = Inr (Some (ext, doff))\<close> says that the
  size fields decode to \<open>ext\<close> and are not the free-space marker.
\<close>

theorem NewFile_size_overflow:
  assumes "get_FileHeader b = Inr fh"
    and "NewFile_size b fh = Inr (Some (ext, doff))"
    and "length b < unat ext"
  shows "NewFile env b = Inl (FileSizeTooBig (GUID fh) ext (length b))
         \<and> GUID fh = Abs_guid (take 16 b)
         \<and> (ext = (if Size fh = (0xFF, 0xFF, 0xFF) then get_uint64 (take 8 (drop 24 b))
                   else Read3Size (Size fh)))"
proof -
  from assms have "NewFile env b = Inl (FileSizeTooBig (GUID fh) ext (length b))"
    by (simp add: NewFile_def)
  moreover from assms(1) have "GUID fh = Abs_guid (take 16 b)"
    by (simp add: get_FileHeader_Inr)
  moreover from assms(2) have "ext = (if Size fh = (0xFF, 0xFF, 0xFF)
      then get_uint64 (take 8 (drop 24 b)) else Read3Size (Size fh))"
    by (auto simp: NewFile_size_Some read_uint64_Inr split: if_splits)
  ultimately show ?thesis
    by simp
qed

text \<open>
  The theorem at the first 24 bytes of the example file, whose size field says 28.
\<close>

theorem NewFile_size_overflow_witness:
  "length (take 24 example_bytes) = 24
   \<and> NewFile example_env (take 24 example_bytes) =
       Inl (FileSizeTooBig FFGUID 28 24)"
proof -
  define fh :: FileHeader where
    "fh = \<lparr> GUID = FFGUID, Checksum = \<lparr> Checksum_Header = 0xAD, Checksum_File = 0xE3 \<rparr>,
            Type = 0x07, Attributes = 0x40, Size = (0x1C, 0, 0), State = 0xF8 \<rparr>"
  have h: "get_FileHeader (take 24 example_bytes) = Inr fh"
    by (simp add: get_FileHeader_def readFull_def example_bytes_def fh_def FFGUID_def
          nth_append)
  have s: "NewFile_size (take 24 example_bytes) fh = Inr (Some (28, 24))"
    by (simp add: NewFile_size_def fh_def Read3Size_def header_length_defs)
  have l: "length (take 24 example_bytes) < unat (28 :: uint64)"
    by (simp add: example_bytes_def)
  from NewFile_size_overflow [OF h s l, of example_env] show ?thesis
    by (simp add: fh_def example_bytes_def)
qed

text \<open>
  Claim C7 as stated fails on the window of 32 erased bytes: its extended size decodes
  to \<open>0xFFFFFFFFFFFFFFFF\<close>, which exceeds the 32 bytes of the window, and \<open>NewFile\<close>
  returns the free-space signal, not an error.
\<close>

theorem NewFile_size_overflow_counterexample:
  "read_uint64 (drop 24 free_space_window) = Inr 0xFFFFFFFFFFFFFFFF
   \<and> length free_space_window < unat (0xFFFFFFFFFFFFFFFF :: uint64)
   \<and> NewFile example_env free_space_window = Inr None"
proof -
  have "NewFile example_env free_space_window = Inr None"
    using free_space_window_decodes by (simp add: NewFile_None NewFile_size_None)
  with free_space_window_decodes show ?thesis
    by simp
qed

section \<open>Parsing and re-assembling\<close>

lemma take_8_nth:
  "8 \<le> length xs \<Longrightarrow> take 8 xs = [xs ! 0, xs ! 1, xs ! 2, xs ! 3, xs ! 4, xs ! 5, xs ! 6, xs ! 7]"
  by (auto simp: numeral_eq_Suc Suc_le_length_iff)

lemma take_24_split:
  assumes "24 \<le> length b"
  shows "take 24 b = take 16 b @ [b ! 16, b ! 17, b ! 18, b ! 19, b ! 20, b ! 21, b ! 22, b ! 23]"
proof -
  have "take 24 b = take 16 b @ take 8 (drop 16 b)"
    using take_add [of 16 8 b] by simp
  moreover have "take 8 (drop 16 b) = [b ! 16, b ! 17, b ! 18, b ! 19, b ! 20, b ! 21, b ! 22, b ! 23]"
    using assms by (simp add: take_8_nth)
  ultimately show ?thesis by simp
qed

lemma bit_get_uint64:
  "bit (get_uint64 bs) n \<longleftrightarrow> n < 64 \<and> n div 8 < length bs \<and> bit (bs ! (n div 8)) (n mod 8)"
proof (induction bs arbitrary: n)
  case Nil
  then show ?case by simp
next
  case (Cons b bs)
  show ?case
  proof (cases "n < 8")
    case True
    then show ?thesis by (simp add: bit_simps)
  next
    case False
    then obtain k where k: "n = 8 + k"
      using le_iff_add [of 8 n] by auto
    have nb: "\<not> bit b (8 + k)"
      using bit_imp_le_length [of b "8 + k"] by auto
    have d: "(8 + k) div 8 = Suc (k div 8)"
      by simp
    show ?thesis
      unfolding k by (auto simp add: bit_simps Cons.IH nb d)
  qed
qed

lemma put_get_uint64:
  assumes "length bs = 8"
  shows "put_uint64 (get_uint64 bs) = bs"
proof -
  have "ucast (drop_bit (8 * i) (get_uint64 bs)) = bs ! i" if "i < 8" for i
  proof (rule bit_word_eqI)
    fix k assume "k < LENGTH(8)"
    then have k: "k < 8" by simp
    with that have "(8 * i + k) div 8 = i" "(8 * i + k) mod 8 = k" "8 * i + k < 64" by simp_all
    with k that assms show "bit (ucast (drop_bit (8 * i) (get_uint64 bs)) :: byte) k = bit (bs ! i) k"
      by (simp add: bit_simps bit_get_uint64)
  qed
  then have "put_uint64 (get_uint64 bs) = map (\<lambda>i. bs ! i) [0..<8]"
    by (simp add: put_uint64_def)
  also have "\<dots> = bs" using assms map_nth [of bs] by simp
  finally show ?thesis .
qed

lemma Header_extend [simp]:
  "GUID (FileHeader.extend fh \<lparr> ExtendedSize = ext \<rparr>) = GUID fh"
  "Checksum (FileHeader.extend fh \<lparr> ExtendedSize = ext \<rparr>) = Checksum fh"
  "Type (FileHeader.extend fh \<lparr> ExtendedSize = ext \<rparr>) = Type fh"
  "Attributes (FileHeader.extend fh \<lparr> ExtendedSize = ext \<rparr>) = Attributes fh"
  "Size (FileHeader.extend fh \<lparr> ExtendedSize = ext \<rparr>) = Size fh"
  "State (FileHeader.extend fh \<lparr> ExtendedSize = ext \<rparr>) = State fh"
  "ExtendedSize (FileHeader.extend fh \<lparr> ExtendedSize = ext \<rparr>) = ext"
  by (simp_all add: FileHeader.defs)

text \<open>What a successful \<open>NewFile\<close> has decoded.\<close>

lemma NewFile_Some_fields:
  assumes parse: "NewFile env b = Inr (Some f)"
    and fh: "get_FileHeader b = Inr fh"
    and sz: "NewFile_size b fh = Inr (Some (ext, doff))"
  shows "unat ext \<le> length b" and "DataOffset f = doff"
    and "Header f = FileHeader.extend fh \<lparr> ExtendedSize = ext \<rparr>"
    and "buf f = take (unat ext) b"
proof -
  from assms show le: "unat ext \<le> length b"
    by (simp add: NewFile_def split: if_splits)
  define f0 where "f0 = \<lparr> Header = FileHeader.extend fh \<lparr> ExtendedSize = ext \<rparr>,
                        TypeName = FVFileType_String (Type fh), Sections = [],
                        NVarStore = None, buf = take (unat ext) b, ExtractPath = [],
                        DataOffset = doff \<rparr>"
  have "\<exists>secs ns. NewFile env b = Inr (Some (f0 \<lparr> Sections := secs, NVarStore := ns \<rparr>))"
  proof (cases "NewFile_nvar env fh (take (unat ext) b) doff")
    case (Inl e)
    with assms le have False
      by (simp add: NewFile_def)
    then show ?thesis ..
  next
    case nv: (Inr ns)
    show ?thesis
    proof (cases "SupportedFiles (Type fh)")
      case False
      with fh sz le nv have "NewFile env b = Inr (Some (f0 \<lparr> Sections := [], NVarStore := ns \<rparr>))"
        by (simp add: NewFile_def Let_def f0_def)
      then show ?thesis by blast
    next
      case True
      show ?thesis
      proof (cases "NewFile_sections (NewSection env) (GUID fh) (take (unat ext) b)
                      (unat ext) 0 doff []")
        case (Inl e)
        with assms le nv True have False
          by (simp add: NewFile_def)
        then show ?thesis ..
      next
        case (Inr secs)
        with fh sz le nv True have "NewFile env b = Inr (Some (f0 \<lparr> Sections := secs, NVarStore := ns \<rparr>))"
          by (simp add: NewFile_def Let_def f0_def)
        then show ?thesis by blast
      qed
    qed
  qed
  with parse obtain secs ns where "f = f0 \<lparr> Sections := secs, NVarStore := ns \<rparr>" by auto
  then show "DataOffset f = doff"
    and "Header f = FileHeader.extend fh \<lparr> ExtendedSize = ext \<rparr>"
    and "buf f = take (unat ext) b"
    by (simp_all add: f0_def)
qed

lemma NewFile_Some:
  assumes "NewFile env b = Inr (Some f)"
  obtains fh ext where "get_FileHeader b = Inr fh" 
     and "NewFile_size b fh = Inr (Some (ext, DataOffset f))"
     and "unat ext \<le> length b" and "Header f = FileHeader.extend fh \<lparr> ExtendedSize = ext \<rparr>"
     and "buf f = take (unat ext) b"
proof (cases "get_FileHeader b")
  case (Inl e)
  with assms have False by (simp add: NewFile_def)
  then show ?thesis ..
next
  case (Inr fh)
  show ?thesis
  proof (cases "NewFile_size b fh")
    case (Inl e)
    with assms Inr have False by (simp add: NewFile_def)
    then show ?thesis ..
  next
    case r: (Inr x)
    show ?thesis
    proof (cases x)
      case None
      with assms r Inr have False by (simp add: NewFile_def)
      then show ?thesis ..
    next
      case (Some p)
      obtain ext doff where p: "p = (ext, doff)" by (cases p)
      with r Some have sz: "NewFile_size b fh = Inr (Some (ext, doff))" by simp
      note NewFile_Some_fields [OF assms Inr sz]
      with Inr sz that show ?thesis by blast
    qed
  qed
qed

text \<open>
  What \<open>well_formed\<close> says in each header shape. A file that is not large has the
  3-byte size \<open>{0xFF,0xFF,0xFF}\<close> exactly when it has \<open>0xFFFFFF\<close> bytes.
\<close>

lemma well_formed_total:
  assumes "well_formed b"
  shows "unat (word_of_nat (length b) :: uint64) = length b"
proof -
  from assms have "length b < 2 ^ 64"
    by (simp add: well_formed_def)
  then show ?thesis
    by (simp add: unat_of_nat)
qed

lemma well_formed_large:
  assumes wf: "well_formed b" and large: "IsLarge (b ! 19)"
  shows "(b ! 20, b ! 21, b ! 22) = (0xFF, 0xFF, 0xFF)"
    and "32 \<le> length b"
    and "unat (get_uint64 (take 8 (drop 24 b))) = length b"
    and "Checksum8 (take 32 b) - b ! 17 - b ! 23 = 0"
    and "(if HasChecksum (b ! 19) then 0 - Checksum8 (drop 32 b) else EmptyBodyChecksum)
           = b ! 17"
proof -
  let ?total = "word_of_nat (length b) :: uint64"
  from wf large have gt: "?total > 0xFFFFFF"
    and sz: "(b ! 20, b ! 21, b ! 22) = Write3Size ?total"
    and ex: "get_uint64 (take 8 (drop 24 b)) = ?total"
    by (simp_all add: well_formed_def Let_def)
  from sz gt show "(b ! 20, b ! 21, b ! 22) = (0xFF, 0xFF, 0xFF)"
    by (simp add: Write3Size_def)
  from wf large show "32 \<le> length b"
    by (simp add: well_formed_def Let_def header_length_defs)
  from ex well_formed_total [OF wf] show "unat (get_uint64 (take 8 (drop 24 b))) = length b"
    by simp
  from wf large show "Checksum8 (take 32 b) - b ! 17 - b ! 23 = 0"
    by (simp add: well_formed_def Let_def header_length_defs)
  from wf large
  show "(if HasChecksum (b ! 19) then 0 - Checksum8 (drop 32 b) else EmptyBodyChecksum)
          = b ! 17"
    by (simp add: well_formed_def Let_def header_length_defs split: if_splits)
qed

lemma well_formed_standard:
  assumes wf: "well_formed b" and std: "\<not> IsLarge (b ! 19)"
  shows "unat (Read3Size (b ! 20, b ! 21, b ! 22)) = length b"
    and "((b ! 20, b ! 21, b ! 22) = (0xFF, 0xFF, 0xFF)) = (length b = 0xFFFFFF)"
    and "Checksum8 (take 24 b) - b ! 17 - b ! 23 = 0"
    and "(if HasChecksum (b ! 19) then 0 - Checksum8 (drop 24 b) else EmptyBodyChecksum)
           = b ! 17"
proof -
  let ?total = "word_of_nat (length b) :: uint64"
  from wf std have le: "?total \<le> 0xFFFFFF"
    and sz: "(b ! 20, b ! 21, b ! 22) = Write3Size ?total"
    by (simp_all add: well_formed_def Let_def not_less)
  from le have rd: "Read3Size (Write3Size ?total) = ?total"
    by (simp add: Read3Size_Write3Size min_def)
  with sz well_formed_total [OF wf]
  show "unat (Read3Size (b ! 20, b ! 21, b ! 22)) = length b"
    by simp
  have ff: "Read3Size (0xFF, 0xFF, 0xFF) = 0xFFFFFF"
    by (simp add: Read3Size_def)
  have "(Write3Size ?total = (0xFF, 0xFF, 0xFF)) = (?total = 0xFFFFFF)"
  proof
    assume "Write3Size ?total = (0xFF, 0xFF, 0xFF)"
    with rd ff show "?total = 0xFFFFFF"
      by simp
  next
    assume "?total = 0xFFFFFF"
    then show "Write3Size ?total = (0xFF, 0xFF, 0xFF)"
      by (simp add: Write3Size_def)
  qed
  moreover have "(?total = 0xFFFFFF) = (length b = 0xFFFFFF)"
  proof
    assume "?total = 0xFFFFFF"
    then have "unat ?total = unat (0xFFFFFF :: uint64)"
      by simp
    with well_formed_total [OF wf] show "length b = 0xFFFFFF"
      by simp
  next
    assume "length b = 0xFFFFFF"
    then show "?total = 0xFFFFFF"
      by simp
  qed
  ultimately show "((b ! 20, b ! 21, b ! 22) = (0xFF, 0xFF, 0xFF)) = (length b = 0xFFFFFF)"
    using sz by simp
  from wf std show "Checksum8 (take 24 b) - b ! 17 - b ! 23 = 0"
    by (simp add: well_formed_def Let_def header_length_defs)
  from wf std
  show "(if HasChecksum (b ! 19) then 0 - Checksum8 (drop 24 b) else EmptyBodyChecksum)
          = b ! 17"
    by (simp add: well_formed_def Let_def header_length_defs split: if_splits)
qed

text \<open>
  The round trip away from the boundary. For every well-formed input file buffer whose
  length is not \<open>0xFFFFFF\<close>, parsing it with \<open>NewFile\<close> and then re-assembling it with
  \<open>ChecksumAndAssemble\<close> on the unchanged body \<open>f.buf[f.DataOffset:]\<close>, with no change to
  the header in between, succeeds and produces a buffer equal to the input buffer, byte
  for byte.
\<close>

lemma NewFile_ChecksumAndAssemble_roundtrip:
  assumes wf: "well_formed b" and nb: "length b \<noteq> 0xFFFFFF"
    and parse: "NewFile env b = Inr (Some f)"
  shows "\<exists>f'. ChecksumAndAssemble f (drop (DataOffset f) (buf f)) = Inr f' \<and> buf f' = b"
proof -
  from parse obtain fh ext where
    fh: "get_FileHeader b = Inr fh" and sz: "NewFile_size b fh = Inr (Some (ext, DataOffset f))"
    and le: "unat ext \<le> length b" and hd: "Header f = FileHeader.extend fh \<lparr> ExtendedSize = ext \<rparr>"
    and bf: "buf f = take (unat ext) b" by (rule NewFile_Some)
  from fh have len: "24 \<le> length b" and fhv: "fh = \<lparr> GUID = Abs_guid (take 16 b),
              Checksum = \<lparr> Checksum_Header = b ! 16, Checksum_File = b ! 17 \<rparr>,
              Type = b ! 18, Attributes = b ! 19, Size = (b ! 20, b ! 21, b ! 22),
              State = b ! 23 \<rparr>" by (simp_all add: get_FileHeader_Inr)
  obtain f' where f': "ChecksumAndAssemble f (drop (DataOffset f) (buf f)) = Inr f'"
    using ChecksumAndAssemble_total by blast
  note h = ChecksumAndAssemble_Inr [OF f']
  have g: "Rep_guid (GUID fh) = take 16 b" using len by (simp add: fhv Rep_Abs_guid)
  have t24: "take 24 b = take 16 b @ [b ! 16, b ! 17, b ! 18, b ! 19, b ! 20, b ! 21, b ! 22, b ! 23]"
    using len by (rule take_24_split)
  have rest: "header_rest (Header f) = Checksum8 (take 16 b) + b ! 18 + b ! 19 + (b ! 20 + b ! 21 + b ! 22)"
    using g by (simp add: header_rest_def hd fhv ThreeUint8_bytes_def Checksum8_def)
  have s24: "Checksum8 (take 24 b) = header_rest (Header f) + b ! 16 + b ! 17 + b ! 23"
    by (simp add: t24 rest Checksum8_def)
  show ?thesis
  proof (cases "IsLarge (b ! 19)")
    case True
    note w = well_formed_large [OF wf True]
    note s = w(1) and l32 = w(2) and e = w(3) and hs = w(4) and fs = w(5)
    from sz s fhv have ex: "ext = get_uint64 (take 8 (drop 24 b))" and doff: "DataOffset f = 32"
      by (auto simp: NewFile_size_Some read_uint64_Inr)
    have bb: "buf f = b" using bf ex e by simp
    have t32: "take 32 b = take 24 b @ take 8 (drop 24 b)" using take_add [of 24 8 b] by simp
    have pe: "put_uint64 ext = take 8 (drop 24 b)" unfolding ex using l32 by (simp add: put_get_uint64)
    have la: "IsLarge (Attributes (Header f))" using True by (simp add: hd fhv)
    have hsum: "header_sum (Header f) = header_rest (Header f) + Checksum8 (take 8 (drop 24 b))"
      using la pe by (simp add: header_sum_def hd)
    have "b ! 16 + header_sum (Header f) = 0"
      using hs by (simp add: hsum t32 Checksum8_append s24 algebra_simps)
    then have ch: "Checksum_Header (Checksum (Header f')) = b ! 16"
      using eq_neg_iff_add_eq_0 [of "b ! 16" "header_sum (Header f)"] by (simp add: h(8))
    have cf: "Checksum_File (Checksum (Header f')) = b ! 17"
      using fs by (simp add: h(7) hd fhv doff bb split: if_splits)
    have "put_FileHeader (Header f') = take 24 b"
      using g by (simp add: put_FileHeader_def h(1-5) ch cf hd fhv t24 ThreeUint8_bytes_def)
    then have "buf f' = take 32 b @ drop 32 b"
      using la pe by (simp add: h(9) put_FileHeaderExtended_def h(6) hd t32 doff bb)
    then have "buf f' = b" by simp
    with f' show ?thesis by blast
  next
    case False
    note w = well_formed_standard [OF wf False]
    from w(2) nb have s: "(b ! 20, b ! 21, b ! 22) \<noteq> (0xFF, 0xFF, 0xFF)"
      by simp
    note e = w(1) and hs = w(3) and fs = w(4)
    from sz s fhv have ex: "ext = Read3Size (b ! 20, b ! 21, b ! 22)" and doff: "DataOffset f = 24"
      by (auto simp: NewFile_size_Some)
    have bb: "buf f = b" using bf ex e by simp
    have la: "\<not> IsLarge (Attributes (Header f))" using False by (simp add: hd fhv)
    have hsum: "header_sum (Header f) = header_rest (Header f)"
      using la by (simp add: header_sum_def)
    have "b ! 16 + header_sum (Header f) = 0"
      using hs by (simp add: hsum s24 algebra_simps)
    then have ch: "Checksum_Header (Checksum (Header f')) = b ! 16"
      using eq_neg_iff_add_eq_0 [of "b ! 16" "header_sum (Header f)"] by (simp add: h(8))
    have cf: "Checksum_File (Checksum (Header f')) = b ! 17"
      using fs by (simp add: h(7) hd fhv doff bb split: if_splits)
    have "put_FileHeader (Header f') = take 24 b"
      using g by (simp add: put_FileHeader_def h(1-5) ch cf hd fhv t24 ThreeUint8_bytes_def)
    then have "buf f' = take 24 b @ drop 24 b"
      using la by (simp add: h(9) doff bb)
    then have "buf f' = b" by simp
    with f' show ?thesis by blast
  qed
qed

text \<open>
  The round trip at the example file (standard header, one section) and at the large
  pad file: both buffers are well-formed, \<open>NewFile\<close> parses them, and the re-assembled
  buffers are the inputs.
\<close>

lemma replicate_8: "replicate 8 x = [x, x, x, x, x, x, x, x]"
  by (simp add: numeral_eq_Suc)

lemma well_formed_examples:
  "well_formed example_bytes" "well_formed large_pad_bytes"
  by (simp_all add: well_formed_def example_bytes_def large_pad_bytes_def Let_def
        nth_append IsLarge_def HasChecksum_def header_length_defs Write3Size_def
        Checksum8_def sum_list_replicate EmptyBodyChecksum_def)

lemma NewFile_example: "NewFile example_env example_bytes = Inr (Some example_parsed)"
  by (simp add: NewFile_def get_FileHeader_def readFull_def example_bytes_def nth_append
        NewFile_size_def Read3Size_def header_length_defs Let_def NewFile_nvar_def
        FVFileType_defs SupportedFiles_def example_env_def example_NewSection_def
        Align4_def example_parsed_def example_assembled_def example_file_def FFGUID_def
        FVFileType_String_def fileTypeNames_def)

lemma NewFile_large_pad:
  "NewFile example_env large_pad_bytes = Inr (Some large_pad_parsed)"
  by (simp add: NewFile_def get_FileHeader_def readFull_def large_pad_bytes_def
        nth_append NewFile_size_def header_length_defs Let_def NewFile_nvar_def
        FVFileType_defs SupportedFiles_def example_env_def FFGUID_def read_uint64_def
        FVFileType_String_def large_pad_parsed_def FileHeader.defs)

lemma NewFile_ChecksumAndAssemble_roundtrip_examples:
  "\<exists>f'. ChecksumAndAssemble example_parsed (drop 24 example_bytes) = Inr f'
        \<and> buf f' = example_bytes"
  "\<exists>f'. ChecksumAndAssemble large_pad_parsed (drop 32 large_pad_bytes) = Inr f'
        \<and> buf f' = large_pad_bytes"
proof -
  have a: "DataOffset example_parsed = 24" "buf example_parsed = example_bytes"
    "length example_bytes \<noteq> 0xFFFFFF"
    by (simp_all add: example_parsed_def example_assembled_def example_file_def
          example_bytes_def)
  have b: "DataOffset large_pad_parsed = 32" "buf large_pad_parsed = large_pad_bytes"
    "length large_pad_bytes \<noteq> 0xFFFFFF"
    by (simp_all add: large_pad_parsed_def large_pad_bytes_def)
  from NewFile_ChecksumAndAssemble_roundtrip [OF well_formed_examples(1) a(3) NewFile_example]
  show "\<exists>f'. ChecksumAndAssemble example_parsed (drop 24 example_bytes) = Inr f'
        \<and> buf f' = example_bytes"
    by (simp add: a)
  from NewFile_ChecksumAndAssemble_roundtrip [OF well_formed_examples(2) b(3) NewFile_large_pad]
  show "\<exists>f'. ChecksumAndAssemble large_pad_parsed (drop 32 large_pad_bytes) = Inr f'
        \<and> buf f' = large_pad_bytes"
    by (simp add: b)
qed

text \<open>
  The round trip at the boundary. A well-formed file of exactly \<open>0xFFFFFF\<close> bytes is
  not large, so \<open>SetSize\<close> (which tests \<open>size > 0xFFFFFF\<close>) and \<open>ChecksumAndAssemble\<close>
  write it with the standard header; its 3-byte size is \<open>{0xFF,0xFF,0xFF}\<close>, and
  \<open>NewFile\<close>, which tests the size field alone, takes the first eight body bytes for an
  extended size and the data to start at byte 32. Whatever \<open>NewFile\<close> then returns, no
  file that it returns for such a buffer re-assembles to the buffer: the result is
  shorter.
\<close>

lemma NewFile_ChecksumAndAssemble_boundary:
  assumes wf: "well_formed b" and len: "length b = 0xFFFFFF"
    and parse: "NewFile env b = Inr (Some f)"
    and assemble: "ChecksumAndAssemble f (drop (DataOffset f) (buf f)) = Inr f'"
  shows "DataOffset f = 32" and "length (buf f') < length b"
proof -
  from wf len have std: "\<not> IsLarge (b ! 19)"
    by (simp add: well_formed_def Let_def)
  from well_formed_standard(2) [OF wf std] len
  have s: "(b ! 20, b ! 21, b ! 22) = (0xFF, 0xFF, 0xFF)"
    by simp
  from parse obtain fh ext where
    fh: "get_FileHeader b = Inr fh"
    and sz: "NewFile_size b fh = Inr (Some (ext, DataOffset f))"
    and hd: "Header f = FileHeader.extend fh \<lparr> ExtendedSize = ext \<rparr>"
    and bf: "buf f = take (unat ext) b"
    by (rule NewFile_Some)
  from fh have fhs: "Size fh = (b ! 20, b ! 21, b ! 22)" and fha: "Attributes fh = b ! 19"
    by (simp_all add: get_FileHeader_Inr)
  from sz fhs s show doff: "DataOffset f = 32"
    by (simp add: NewFile_size_Some)
  note h = ChecksumAndAssemble_Inr [OF assemble]
  from std hd fha have "\<not> IsLarge (Attributes (Header f))"
    by simp
  with h(9) have "buf f' = put_FileHeader (Header f') @ drop 32 (take (unat ext) b)"
    by (simp add: doff bf)
  then have "length (buf f') = 24 + (min (length b) (unat ext) - 32)"
    by simp
  with len show "length (buf f') < length b"
    by simp
qed

text \<open>The pad file of \<open>0xFFFFFF\<close> bytes, for any erase polarity.\<close>

lemma CreatePadFile_boundary:
  "CreatePadFile env 0xFFFFFF =
     Inr \<lparr> Header = \<lparr> GUID = FFGUID,
                       Checksum = \<lparr> Checksum_Header = 0x23, Checksum_File = 0xAA \<rparr>,
                       Type = 0xF0, Attributes = 0, Size = (0xFF, 0xFF, 0xFF),
                       State = 0x07 XOR ErasePolarity env, ExtendedSize = 0xFFFFFF \<rparr>,
            TypeName = ''EFI_FV_FILETYPE_FFS_PAD'', Sections = [], NVarStore = None,
            buf = boundary_pad_bytes (ErasePolarity env),
            ExtractPath = [], DataOffset = 0 \<rparr>"
  by (simp add: CreatePadFile_def header_length_defs File_zero_def SetSize_def Let_def
        setLarge_def Write3Size_def IsLarge_def SetState_def FVFileType_String_def
        FVFileType_defs FileStateValid_def FileStateHeaderConstruction_def
        FileStateHeaderValid_def FileStateDataValid_def ChecksumAndAssemble_def
        ChecksumHeader_def HasChecksum_def put_FileHeaderExtended_def put_FileHeader_def
        FFGUID_def Rep_Abs_guid ThreeUint8_bytes_def Checksum8_def put_uint64_def
        EmptyBodyChecksum_def sum_list_replicate boundary_pad_bytes_def)

lemma well_formed_boundary_pad: "well_formed (boundary_pad_bytes pol)"
  by (simp add: well_formed_def boundary_pad_bytes_def Let_def nth_append IsLarge_def
        HasChecksum_def header_length_defs Write3Size_def Checksum8_def sum_list_replicate
        EmptyBodyChecksum_def)

lemma NewFile_boundary_pad_FF:
  "NewFile env (boundary_pad_bytes 0xFF) = Inr None"
proof -
  have "\<exists>fh. get_FileHeader (boundary_pad_bytes 0xFF) = Inr fh
             \<and> Size fh = (0xFF, 0xFF, 0xFF)"
    by (simp add: get_FileHeader_def readFull_def nth_append boundary_pad_bytes_def)
  moreover have "read_uint64 (drop 24 (boundary_pad_bytes 0xFF)) = Inr 0xFFFFFFFFFFFFFFFF"
    by (simp add: read_uint64_def readFull_def replicate_8 boundary_pad_bytes_def)
  ultimately show ?thesis
    by (simp add: NewFile_None NewFile_size_None)
qed

lemma NewFile_boundary_pad_zero:
  "NewFile example_env_zero (boundary_pad_bytes 0x00) = Inr (Some boundary_pad_parsed_zero)"
  by (simp add: NewFile_def get_FileHeader_def readFull_def boundary_pad_bytes_def
        nth_append NewFile_size_def header_length_defs Let_def NewFile_nvar_def
        FVFileType_defs SupportedFiles_def example_env_zero_def example_env_def FFGUID_def
        read_uint64_def replicate_8 FVFileType_String_def boundary_pad_parsed_zero_def
        FileHeader.defs)

text \<open>
  Claim C1. For every well-formed input file buffer, parsing it with \<open>NewFile\<close> and
  then re-assembling it with \<open>ChecksumAndAssemble\<close> on the unchanged body, with no
  change to the header in between, produces a buffer equal to the input buffer. The
  code does not do so for the pad file of exactly \<open>0xFFFFFF\<close> bytes: \<open>CreatePadFile\<close>
  assembles it, with the standard header and valid checksums, and the buffer is
  well-formed. Under erase polarity \<open>0xFF\<close>, \<open>NewFile\<close> reads that buffer as the start
  of free space and returns no file. Under erase polarity \<open>0x00\<close>, \<open>NewFile\<close> returns a
  file with an empty buffer and the data offset 32, which has no body to re-assemble;
  the buffer is not reproduced.
\<close>

theorem NewFile_ChecksumAndAssemble_roundtrip_boundary:
  "map_sum id buf (CreatePadFile example_env 0xFFFFFF) = Inr (boundary_pad_bytes 0xFF)
   \<and> length (boundary_pad_bytes 0xFF) = 0xFFFFFF
   \<and> well_formed (boundary_pad_bytes 0xFF)
   \<and> NewFile example_env (boundary_pad_bytes 0xFF) = Inr None
   \<and> map_sum id buf (CreatePadFile example_env_zero 0xFFFFFF) = Inr (boundary_pad_bytes 0x00)
   \<and> length (boundary_pad_bytes 0x00) = 0xFFFFFF
   \<and> well_formed (boundary_pad_bytes 0x00)
   \<and> NewFile example_env_zero (boundary_pad_bytes 0x00) = Inr (Some boundary_pad_parsed_zero)
   \<and> buf boundary_pad_parsed_zero = []
   \<and> DataOffset boundary_pad_parsed_zero = 32
   \<and> buf boundary_pad_parsed_zero \<noteq> boundary_pad_bytes 0x00"
proof -
  have p: "ErasePolarity example_env = 0xFF" "ErasePolarity example_env_zero = 0x00"
    by (simp_all add: example_env_def example_env_zero_def)
  have l: "length (boundary_pad_bytes pol) = 0xFFFFFF" for pol
    by (simp add: boundary_pad_bytes_def)
  have c: "map_sum id buf (CreatePadFile env 0xFFFFFF) =
             Inr (boundary_pad_bytes (ErasePolarity env))" for env
    by (simp add: CreatePadFile_boundary)
  have e: "buf boundary_pad_parsed_zero = []" "DataOffset boundary_pad_parsed_zero = 32"
    by (simp_all add: boundary_pad_parsed_zero_def)
  have n: "buf boundary_pad_parsed_zero \<noteq> boundary_pad_bytes 0x00"
    using l [of "0x00"] by (auto simp add: e)
  from c [of example_env] c [of example_env_zero] p l well_formed_boundary_pad
    NewFile_boundary_pad_FF NewFile_boundary_pad_zero e n
  show ?thesis
    by simp
qed

section \<open>Properties of the payload reader\<close>

text \<open>One turn of the segment loop, by the result of the header read.\<close>

lemma Read_segs_entry:
  "cbfs_Read env s = (Inr h, s') \<Longrightarrow> ph_Type h = SegEntry env \<Longrightarrow>
     Read_segs env segs s = Some ((None, segs @ [h]), s')"
  by (subst Read_segs.simps) simp

lemma Read_segs_more:
  "cbfs_Read env s = (Inr h, s') \<Longrightarrow> ph_Type h \<noteq> SegEntry env \<Longrightarrow>
     Read_segs env segs s = Read_segs env (segs @ [h]) s'"
  by (subst Read_segs.simps) simp

lemma Read_segs_error:
  "cbfs_Read env s = (Inl e, s') \<Longrightarrow> Read_segs env segs s = Some ((Some e, segs), s')"
  by (subst Read_segs.simps) simp

lemma Read_segs_last:
  assumes "Read_segs env segs s = Some res"
  shows "(fst (fst res) = None \<longrightarrow>
            snd (fst res) \<noteq> [] \<and> ph_Type (last (snd (fst res))) = SegEntry env)
         \<and> (\<exists>more. snd (fst res) = segs @ more)"
proof (rule Read_segs.raw_induct
    [where P = "\<lambda>env segs s res.
       (fst (fst res) = None \<longrightarrow>
          snd (fst res) \<noteq> [] \<and> ph_Type (last (snd (fst res))) = SegEntry env)
       \<and> (\<exists>more. snd (fst res) = segs @ more)", OF _ assms])
  fix rs :: "'a cbfs_env \<Rightarrow> PayloadHeader list \<Rightarrow> 'a \<Rightarrow> ((error option \<times> PayloadHeader list) \<times> 'a) option"
  fix env segs s res
  assume IH: "\<And>env segs s res. rs env segs s = Some res \<Longrightarrow>
       (fst (fst res) = None \<longrightarrow>
          snd (fst res) \<noteq> [] \<and> ph_Type (last (snd (fst res))) = SegEntry env)
       \<and> (\<exists>more. snd (fst res) = segs @ more)"
  assume step: "(case cbfs_Read env s of
           (Inl err, s') \<Rightarrow> Some ((Some err, segs), s')
         | (Inr h, s') \<Rightarrow>
             let segs' = segs @ [h]
             in if ph_Type h = SegEntry env then Some ((None, segs'), s')
                else rs env segs' s') = Some res"
  obtain r s' where rd: "cbfs_Read env s = (r, s')"
    by (cases "cbfs_Read env s")
  show "(fst (fst res) = None \<longrightarrow>
            snd (fst res) \<noteq> [] \<and> ph_Type (last (snd (fst res))) = SegEntry env)
         \<and> (\<exists>more. snd (fst res) = segs @ more)"
  proof (cases r)
    case (Inl err)
    with step rd show ?thesis
      by auto
  next
    case (Inr h)
    show ?thesis
    proof (cases "ph_Type h = SegEntry env")
      case True
      with step rd Inr show ?thesis
        by auto
    next
      case False
      with step rd Inr have "rs env (segs @ [h]) s' = Some res"
        by simp
      from IH [OF this] show ?thesis
        by auto
    qed
  qed
qed

lemma PayloadRecord_Read_Segs:
  assumes "PayloadRecord_Read env p s = Some ((None, p'), s')"
  shows "\<exists>s1. Read_segs env (Segs p) s = Some ((None, Segs p'), s1)"
proof (cases "Read_segs env (Segs p) s")
  case None
  with assms show ?thesis by (simp add: PayloadRecord_Read_def)
next
  case (Some res)
  obtain err segs s1 where res: "res = ((err, segs), s1)" by (cases res) auto
  show ?thesis
  proof (cases err)
    case None
    obtain r s2 where sk: "in_Seek env s1 0 SeekCurrent = (r, s2)" by (cases "in_Seek env s1 0 SeekCurrent")
    have "Segs p' = segs"
    proof (cases r)
      case (Inl e)
      with assms Some res None sk show ?thesis by (simp add: PayloadRecord_Read_def)
    next
      case (Inr offset)
      with assms Some res None sk show ?thesis 
        by (auto simp add: PayloadRecord_Read_def Let_def split: if_splits prod.splits option.splits)
    qed
    with Some res None show ?thesis by simp
  next
    case (Some e)
    with assms \<open>Read_segs env (Segs p) s = Some res\<close> res show ?thesis by (simp add: PayloadRecord_Read_def)
  qed
qed

text \<open>
  Claim C8. Every \<open>PayloadRecord\<close> whose \<open>Read\<close> completes without error has a
  non-empty segment list whose last element has type \<open>SegEntry\<close>.
\<close>

theorem PayloadRecord_Read_last_SegEntry:
  assumes "PayloadRecord_Read env p s = Some ((None, p'), s')"
  shows "Segs p' \<noteq> [] \<and> ph_Type (last (Segs p')) = SegEntry env"
proof -
  from PayloadRecord_Read_Segs [OF assms]
  obtain s1 where "Read_segs env (Segs p) s = Some ((None, Segs p'), s1)" ..
  from Read_segs_last [OF this] show ?thesis
    by simp
qed

text \<open>The example stream: both descriptors decode, the second ends the loop.\<close>

lemma example_cbfs_Read:
  "cbfs_Read example_cbfs_env example_stream =
     (Inr code_header, example_stream \<lparr> br_i := 28 \<rparr>)"
  "cbfs_Read example_cbfs_env (example_stream \<lparr> br_i := 28 \<rparr>) =
     (Inr entry_header, example_stream \<lparr> br_i := 56 \<rparr>)"
  by (simp_all add: example_cbfs_env_def bytes_env_def bytes_Reader_cbfs_Read_def
        example_stream_def code_header_bytes_def entry_header_bytes_def
        PayloadHeader_size_def Let_def get_PayloadHeader_def get_be_def code_header_def
        entry_header_def)

lemma example_Read_segs:
  "Read_segs example_cbfs_env [] example_stream =
     Some ((None, [code_header, entry_header]), example_stream \<lparr> br_i := 56 \<rparr>)"
proof -
  have t1: "ph_Type code_header \<noteq> SegEntry example_cbfs_env"
    by (simp add: code_header_def example_cbfs_env_def bytes_env_def example_SegEntry_def)
  have t2: "ph_Type entry_header = SegEntry example_cbfs_env"
    by (simp add: entry_header_def example_cbfs_env_def bytes_env_def example_SegEntry_def)
  show ?thesis
    using Read_segs_more [OF example_cbfs_Read(1) t1, of "[]"]
      Read_segs_entry [OF example_cbfs_Read(2) t2, of "[code_header]"]
    by simp
qed

lemma example_Seek:
  "in_Seek example_cbfs_env (example_stream \<lparr> br_i := 56 \<rparr>) 0 SeekCurrent =
     (Inr 56, example_stream \<lparr> br_i := 56 \<rparr>)"
  by (simp add: example_cbfs_env_def bytes_env_def bytes_Reader_Seek_def Let_def
        example_stream_def)

lemma example_Read:
  "in_Read example_cbfs_env (example_stream \<lparr> br_i := 56 \<rparr>) n =
     ((take n [0xAB, 0xCD], None),
      example_stream \<lparr> br_i := 56 + length (take n [0xAB, 0xCD :: byte]) \<rparr>)"
  by (simp add: example_cbfs_env_def bytes_env_def bytes_Reader_Read_def Let_def
        example_stream_def code_header_bytes_def entry_header_bytes_def)

text \<open>\<open>Read\<close> on the example stream for a file of 58 bytes: the body is the two bytes.\<close>

lemma example_PayloadRecord_Read:
  "PayloadRecord_Read example_cbfs_env (example_record 58) example_stream =
     Some ((None, \<lparr> pr_File = \<lparr> File_Size = 58 \<rparr>, Segs = [code_header, entry_header],
                    FData = [0xAB, 0xCD] \<rparr>),
           example_stream \<lparr> br_i := 58 \<rparr>)"
proof -
  have b: "bodySize (example_record 58) 56 = 2"
    by (simp add: bodySize_def example_record_def)
  have r: "in_Read example_cbfs_env (example_stream \<lparr> br_i := 56 \<rparr>) 2 =
          (([0xAB, 0xCD], None), example_stream \<lparr> br_i := 58 \<rparr>)"
    by (simp add: example_Read)
  have s: "stored 2 [0xAB, 0xCD] = [0xAB, 0xCD]"
    by (simp add: stored_def)
  have p: "Segs (example_record 58) = []"
    "(example_record 58) \<lparr> Segs := [code_header, entry_header], FData := [0xAB, 0xCD] \<rparr> =
       \<lparr> pr_File = \<lparr> File_Size = 58 \<rparr>, Segs = [code_header, entry_header],
         FData = [0xAB, 0xCD] \<rparr>"
    by (simp_all add: example_record_def)
  show ?thesis
    by (simp add: PayloadRecord_Read_def p(1) example_Read_segs example_Seek bodySize_def
          b [unfolded bodySize_def] r s p(2) [symmetric])
qed

theorem PayloadRecord_Read_last_SegEntry_witness:
  "PayloadRecord_Read example_cbfs_env (example_record 58) example_stream =
     Some ((None, \<lparr> pr_File = \<lparr> File_Size = 58 \<rparr>, Segs = [code_header, entry_header],
                    FData = [0xAB, 0xCD] \<rparr>),
           example_stream \<lparr> br_i := 58 \<rparr>)
   \<and> ph_Type (last [code_header, entry_header]) = SegEntry example_cbfs_env"
  using PayloadRecord_Read_last_SegEntry [OF example_PayloadRecord_Read]
  by (simp add: example_PayloadRecord_Read)

lemma length_stored [simp]: "length (stored n bs) = n"
  by (simp add: stored_def)

lemma stored_front: "take (length bs) (stored n bs) = take n bs"
  by (simp add: stored_def min_def take_all)

text \<open>
  Claim C9, as the code has it. In \<open>PayloadRecord.Read\<close>, after the \<open>SegEntry\<close> segment
  is consumed and the stream position is found: if the record's \<open>Size\<close> minus the
  position is negative, or if it is zero, \<open>Read\<close> returns success and leaves the body as
  it was (empty for a record made by \<open>NewPayloadRecord\<close>); otherwise \<open>Read\<close> allocates
  exactly that many bytes and performs a single read, whose error value it returns. A
  short read is tolerated in that no error is returned for it; the body keeps its
  allocated length, with the bytes read at its front and zero bytes after them.
\<close>

theorem PayloadRecord_Read_body:
  assumes segs: "Read_segs env (Segs p) s = Some ((None, segs), s1)"
    and seek: "in_Seek env s1 0 SeekCurrent = (Inr offset, s2)"
    and read: "in_Read env s2 (nat (sint (bodySize p offset))) = ((bs, err), s3)"
  shows "PayloadRecord_Read env p s =
           (if sint (bodySize p offset) < 0 then Some ((None, p\<lparr> Segs := segs \<rparr>), s2)
            else if bodySize p offset = 0 then Some ((None, p\<lparr> Segs := segs \<rparr>), s2)
            else Some ((err, p\<lparr> Segs := segs,
                               FData := stored (nat (sint (bodySize p offset))) bs \<rparr>), s3))
         \<and> length (stored (nat (sint (bodySize p offset))) bs) = nat (sint (bodySize p offset))
         \<and> take (length bs) (stored (nat (sint (bodySize p offset))) bs) =
             take (nat (sint (bodySize p offset))) bs"
proof -
  have b: "bodySize (p\<lparr> Segs := segs \<rparr>) offset = bodySize p offset"
    by (simp add: bodySize_def)
  from segs seek read have "PayloadRecord_Read env p s =
           (if sint (bodySize p offset) < 0 then Some ((None, p\<lparr> Segs := segs \<rparr>), s2)
            else if bodySize p offset = 0 then Some ((None, p\<lparr> Segs := segs \<rparr>), s2)
            else Some ((err, p\<lparr> Segs := segs,
                               FData := stored (nat (sint (bodySize p offset))) bs \<rparr>), s3))"
    by (cases err) (simp_all add: PayloadRecord_Read_def Let_def b)
  then show ?thesis
    by (simp add: stored_front)
qed

lemma NewPayloadRecord_example:
  "NewPayloadRecord \<lparr> File_Size = n \<rparr> = Inr (example_record n)"
  by (simp add: NewPayloadRecord_def example_record_def)

lemma example_record_Read_segs:
  "Read_segs example_cbfs_env (Segs (example_record n)) example_stream =
     Some ((None, [code_header, entry_header]), example_stream \<lparr> br_i := 56 \<rparr>)"
  by (simp add: example_record_def example_Read_segs)

lemma example_bodySize:
  "bodySize (example_record 68) 56 = 12"
  "bodySize (example_record 10) 56 = - 46"
  by (simp_all add: bodySize_def example_record_def)

text \<open>
  The theorem on the example stream, whose body has two bytes, for a file of size 68
  (twelve bytes are asked for, two are read) and for a file of size 10, less than the
  56 bytes of the two descriptors.
\<close>

theorem PayloadRecord_Read_body_witness:
  "PayloadRecord_Read example_cbfs_env (example_record 68) example_stream =
     Some ((None, \<lparr> pr_File = \<lparr> File_Size = 68 \<rparr>, Segs = [code_header, entry_header],
                    FData = 0xAB # 0xCD # replicate 10 0 \<rparr>),
           example_stream \<lparr> br_i := 58 \<rparr>)
   \<and> PayloadRecord_Read example_cbfs_env (example_record 10) example_stream =
     Some ((None, \<lparr> pr_File = \<lparr> File_Size = 10 \<rparr>, Segs = [code_header, entry_header],
                    FData = [] \<rparr>),
           example_stream \<lparr> br_i := 56 \<rparr>)"
proof -
  have r1: "in_Read example_cbfs_env (example_stream \<lparr> br_i := 56 \<rparr>)
              (nat (sint (bodySize (example_record 68) 56))) =
            (([0xAB, 0xCD], None), example_stream \<lparr> br_i := 58 \<rparr>)"
    by (simp add: example_bodySize example_Read)
  have r2: "in_Read example_cbfs_env (example_stream \<lparr> br_i := 56 \<rparr>)
              (nat (sint (bodySize (example_record 10) 56))) =
            (([], None), example_stream \<lparr> br_i := 56 \<rparr>)"
    by (simp add: example_bodySize example_Read)
  from PayloadRecord_Read_body [OF example_record_Read_segs example_Seek r1]
  have a: "PayloadRecord_Read example_cbfs_env (example_record 68) example_stream =
     Some ((None, (example_record 68)
                    \<lparr> Segs := [code_header, entry_header],
                      FData := 0xAB # 0xCD # replicate 10 0 \<rparr>),
           example_stream \<lparr> br_i := 58 \<rparr>)"
    by (simp add: example_bodySize stored_def)
  from PayloadRecord_Read_body [OF example_record_Read_segs example_Seek r2]
  have b: "PayloadRecord_Read example_cbfs_env (example_record 10) example_stream =
     Some ((None, (example_record 10) \<lparr> Segs := [code_header, entry_header] \<rparr>),
           example_stream \<lparr> br_i := 56 \<rparr>)"
    by (simp add: example_bodySize)
  from a b show ?thesis
    by (simp add: example_record_def)
qed

text \<open>
  Claim C9 as stated fails on the same stream for the file of size 68: the single read
  is short, it returns the two bytes left and no error; \<open>Read\<close> returns success, and
  the body has the twelve bytes that were allocated, not the two that were read.
\<close>

theorem PayloadRecord_Read_body_counterexample:
  "in_Read example_cbfs_env (example_stream \<lparr> br_i := 56 \<rparr>) 12 =
     (([0xAB, 0xCD], None), example_stream \<lparr> br_i := 58 \<rparr>)
   \<and> PayloadRecord_Read example_cbfs_env (example_record 68) example_stream =
     Some ((None, \<lparr> pr_File = \<lparr> File_Size = 68 \<rparr>, Segs = [code_header, entry_header],
                    FData = 0xAB # 0xCD # replicate 10 0 \<rparr>),
           example_stream \<lparr> br_i := 58 \<rparr>)
   \<and> length (0xAB # 0xCD # replicate 10 (0 :: byte)) = 12
   \<and> length [0xAB, 0xCD :: byte] = 2"
proof -
  have r: "in_Read example_cbfs_env (example_stream \<lparr> br_i := 56 \<rparr>) 12 =
             (([0xAB, 0xCD], None), example_stream \<lparr> br_i := 58 \<rparr>)"
    by (simp add: example_Read)
  have b: "bodySize ((example_record 68) \<lparr> Segs := [code_header, entry_header] \<rparr>) 56 = 12"
    by (simp add: bodySize_def example_record_def)
  have "PayloadRecord_Read example_cbfs_env (example_record 68) example_stream =
     Some ((None, (example_record 68)
                    \<lparr> Segs := [code_header, entry_header],
                      FData := 0xAB # 0xCD # replicate 10 0 \<rparr>),
           example_stream \<lparr> br_i := 58 \<rparr>)"
    by (simp add: PayloadRecord_Read_def example_record_Read_segs example_Seek Let_def b r
          stored_def)
  then have "PayloadRecord_Read example_cbfs_env (example_record 68) example_stream =
     Some ((None, \<lparr> pr_File = \<lparr> File_Size = 68 \<rparr>, Segs = [code_header, entry_header],
                    FData = 0xAB # 0xCD # replicate 10 0 \<rparr>),
           example_stream \<lparr> br_i := 58 \<rparr>)"
    by (simp add: example_record_def)
  with r show ?thesis
    by simp
qed

end
